theory Spec2Isabelle
  imports Complex_Main "HOL-Library.Word" "HOL-Library.Multiset"
begin

unbundle bit_operations_syntax

section \<open>Scalar math (s3d\_math.h)\<close>

text \<open>
  The C++ \<open>float\<close> is modelled by \<^typ>\<open>real\<close>: arithmetic is exact, and there are no
  infinities, NaNs or signed zeros. \<open>Morton3D\<close> and \<open>IntersectTriangle\<close> are read a second
  time on floats with infinities and NaN in the section on these values, where the
  statements about them are made. \<open>uint32_t\<close> is \<^typ>\<open>32 word\<close>, \<open>size_t\<close> is
  \<^typ>\<open>nat\<close>.
\<close>

type_synonym u32 = "32 word"

definition kMaxBound :: real where
  "kMaxBound = (2 - 1 / 2 ^ 23) * 2 ^ 127"

definition kMinBound :: real where
  "kMinBound = - kMaxBound"

definition kInvalid :: u32 where
  "kInvalid = 0xFFFFFFFF"

definition Min_f :: "real \<Rightarrow> real \<Rightarrow> real" where
  "Min_f lhs rhs = (if lhs < rhs then lhs else rhs)"

definition Max_f :: "real \<Rightarrow> real \<Rightarrow> real" where
  "Max_f lhs rhs = (if lhs > rhs then lhs else rhs)"

definition Clamp :: "real \<Rightarrow> real \<Rightarrow> real \<Rightarrow> real" where
  "Clamp val lo hi = Max_f lo (Min_f hi val)"

subsection \<open>Morton encoder\<close>

definition ExpandBits :: "u32 \<Rightarrow> u32" where
  "ExpandBits v0 =
     (let v1 = (v0 * 0x00010001) AND 0xFF0000FF;
          v2 = (v1 * 0x00000101) AND 0x0F00F00F;
          v3 = (v2 * 0x00000011) AND 0xC30C30C3;
          v4 = (v3 * 0x00000005) AND 0x49249249
      in v4)"

lemma mul_shift_or:
  fixes w :: u32
  assumes "w AND push_bit s w = 0"
  shows "w * (2 ^ s + 1) = w OR push_bit s w"
proof -
  have "w * (2 ^ s + 1) = w + push_bit s w"
    by (simp add: push_bit_eq_mult algebra_simps)
  also have "\<dots> = w OR push_bit s w"
    using assms by (rule disjunctive_add_eq_or)
  finally show ?thesis .
qed



text \<open>
  Closed forms of the four intermediate values of the ladder for an input below 1024:
  after the last step bit \<open>k\<close> of the input sits at position \<open>3 * k\<close>.
\<close>

definition lad1 :: "u32 \<Rightarrow> u32" where
  "lad1 v = (v AND mask 8) OR push_bit 16 (v AND push_bit 8 (mask 2))"

definition lad2 :: "u32 \<Rightarrow> u32" where
  "lad2 v = (v AND mask 4) OR push_bit 8 (v AND push_bit 4 (mask 4)) OR push_bit 16 (v AND push_bit 8 (mask 2))"

definition lad3 :: "u32 \<Rightarrow> u32" where
  "lad3 v = (v AND mask 2) OR push_bit 4 (v AND push_bit 2 (mask 2)) OR push_bit 8 (v AND push_bit 4 (mask 2))
     OR push_bit 12 (v AND push_bit 6 (mask 2)) OR push_bit 16 (v AND push_bit 8 (mask 2))"

definition lad4 :: "u32 \<Rightarrow> u32" where
  "lad4 v = (v AND mask 1) OR push_bit 2 (v AND push_bit 1 (mask 1)) OR push_bit 4 (v AND push_bit 2 (mask 1))
     OR push_bit 6 (v AND push_bit 3 (mask 1)) OR push_bit 8 (v AND push_bit 4 (mask 1))
     OR push_bit 10 (v AND push_bit 5 (mask 1)) OR push_bit 12 (v AND push_bit 6 (mask 1))
     OR push_bit 14 (v AND push_bit 7 (mask 1)) OR push_bit 16 (v AND push_bit 8 (mask 1))
     OR push_bit 18 (v AND push_bit 9 (mask 1))"

lemma upt_32: "[0..<32] = [0,1,2,3,4,5,6,7,8,9,10,11,12,13,14,15,16,17,18,19,20,21,22,23,
    24,25,26,27,28,29,30,31]"
  by code_simp

lemma less_32_cases:
  assumes "(n::nat) < 32"
  obtains "n = 0" | "n = 1" | "n = 2" | "n = 3" | "n = 4" | "n = 5" | "n = 6" | "n = 7"
    | "n = 8" | "n = 9" | "n = 10" | "n = 11" | "n = 12" | "n = 13" | "n = 14" | "n = 15"
    | "n = 16" | "n = 17" | "n = 18" | "n = 19" | "n = 20" | "n = 21" | "n = 22" | "n = 23"
    | "n = 24" | "n = 25" | "n = 26" | "n = 27" | "n = 28" | "n = 29" | "n = 30" | "n = 31"
proof -
  from assms have "n \<in> set [0..<32]" by simp
  then have "n \<in> {0, 1, 2, 3, 4, 5, 6, 7, 8, 9, 10, 11, 12, 13, 14, 15, 16, 17, 18, 19, 20, 21,
      22, 23, 24, 25, 26, 27, 28, 29, 30, 31}"
    unfolding upt_32 by simp
  then show thesis
    by (elim insertE emptyE) (erule that)+
qed

lemma bits_le_1023:
  fixes v :: u32
  assumes "v \<le> 1023" and "bit v n"
  shows "n < 10"
proof -
  have "unat v < 2 ^ 10" using assms(1) by (simp add: word_le_nat_alt)
  then have "v < 2 ^ 10" by (simp add: word_less_nat_alt)
  then have "v AND mask 10 = v" by (rule less_mask_eq)
  then have "take_bit 10 v = v" by (simp add: take_bit_eq_mask)
  with assms(2) show ?thesis by (metis bit_take_bit_iff)
qed

lemma step1:
  fixes v :: u32
  assumes "v \<le> 1023"
  shows "(v * 0x00010001) AND 0xFF0000FF = lad1 v"
proof -
  note bv = bits_le_1023 [OF assms]
  have d: "v AND push_bit 16 v = 0"
    by (rule bit_eqI) (auto simp: bit_simps dest: bv)
  have "v * 0x00010001 = v * (2 ^ 16 + 1)" by simp
  also have "\<dots> = v OR push_bit 16 v" by (rule mul_shift_or [OF d])
  finally have e: "v * 0x00010001 = v OR push_bit 16 v" .
  have "bit ((v OR push_bit 16 v) AND 0xFF0000FF) n = bit (lad1 v) n" if "n < 32" for n
    using that by (rule less_32_cases) (auto simp: lad1_def bit_simps dest: bv)
  then show ?thesis
    unfolding e by (intro bit_word_eqI) simp
qed

lemma step2: "(lad1 v * 0x00000101) AND 0x0F00F00F = lad2 v"
proof -
  have "bit (lad1 v AND push_bit 8 (lad1 v)) n = bit (0 :: u32) n" if "n < 32" for n
    using that by (rule less_32_cases) (simp_all add: lad1_def bit_simps)
  then have d: "lad1 v AND push_bit 8 (lad1 v) = 0"
    by (intro bit_word_eqI) simp
  have "lad1 v * 0x00000101 = lad1 v * (2 ^ 8 + 1)" by simp
  also have "\<dots> = lad1 v OR push_bit 8 (lad1 v)" by (rule mul_shift_or [OF d])
  finally have e: "lad1 v * 0x00000101 = lad1 v OR push_bit 8 (lad1 v)" .
  have "bit ((lad1 v OR push_bit 8 (lad1 v)) AND 0x0F00F00F) n = bit (lad2 v) n" if "n < 32" for n
    using that by (rule less_32_cases) (simp_all add: lad1_def lad2_def bit_simps)
  then show ?thesis
    unfolding e by (intro bit_word_eqI) simp
qed


lemma step3: "(lad2 v * 0x00000011) AND 0xC30C30C3 = lad3 v"
proof -
  have "bit (lad2 v AND push_bit 4 (lad2 v)) n = bit (0 :: u32) n" if "n < 32" for n
    using that by (rule less_32_cases) (simp_all add: lad2_def bit_simps)
  then have d: "lad2 v AND push_bit 4 (lad2 v) = 0"
    by (intro bit_word_eqI) simp
  have "lad2 v * 0x00000011 = lad2 v * (2 ^ 4 + 1)" by simp
  also have "\<dots> = lad2 v OR push_bit 4 (lad2 v)" by (rule mul_shift_or [OF d])
  finally have e: "lad2 v * 0x00000011 = lad2 v OR push_bit 4 (lad2 v)" .
  have "bit ((lad2 v OR push_bit 4 (lad2 v)) AND 0xC30C30C3) n = bit (lad3 v) n" if "n < 32" for n
    using that by (rule less_32_cases) (simp_all add: lad2_def lad3_def bit_simps)
  then show ?thesis
    unfolding e by (intro bit_word_eqI) simp
qed

lemma step4: "(lad3 v * 0x00000005) AND 0x49249249 = lad4 v"
proof -
  have "bit (lad3 v AND push_bit 2 (lad3 v)) n = bit (0 :: u32) n" if "n < 32" for n
    using that by (rule less_32_cases) (simp_all add: lad3_def bit_simps)
  then have d: "lad3 v AND push_bit 2 (lad3 v) = 0"
    by (intro bit_word_eqI) simp
  have "lad3 v * 0x00000005 = lad3 v * (2 ^ 2 + 1)" by simp
  also have "\<dots> = lad3 v OR push_bit 2 (lad3 v)" by (rule mul_shift_or [OF d])
  finally have e: "lad3 v * 0x00000005 = lad3 v OR push_bit 2 (lad3 v)" .
  have "bit ((lad3 v OR push_bit 2 (lad3 v)) AND 0x49249249) n = bit (lad4 v) n" if "n < 32" for n
    using that by (rule less_32_cases) (simp_all add: lad3_def lad4_def bit_simps)
  then show ?thesis
    unfolding e by (intro bit_word_eqI) simp
qed

lemma ExpandBits_lad4: "v \<le> 1023 \<Longrightarrow> ExpandBits v = lad4 v"
  by (simp add: ExpandBits_def step1 step2 step3 step4)


text \<open>The cast \<open>(uint32_t)x\<close> of a float truncates towards zero.\<close>

definition to_u32 :: "real \<Rightarrow> u32" where
  "to_u32 f = word_of_int (if 0 \<le> f then \<lfloor>f\<rfloor> else \<lceil>f\<rceil>)"

definition Morton3D :: "real \<Rightarrow> real \<Rightarrow> real \<Rightarrow> u32" where
  "Morton3D x y z =
     (let x' = Clamp (x * 1024) 0 1023;
          y' = Clamp (y * 1024) 0 1023;
          z' = Clamp (z * 1024) 0 1023;
          xx = ExpandBits (to_u32 x');
          yy = ExpandBits (to_u32 y');
          zz = ExpandBits (to_u32 z')
      in push_bit 2 xx + push_bit 1 yy + zz)"

text \<open>The bin of a coordinate: the clamped, truncated value that \<open>ExpandBits\<close> receives.\<close>

definition morton_bin :: "real \<Rightarrow> u32" where
  "morton_bin c = to_u32 (Clamp (c * 1024) 0 1023)"

lemma Clamp_range: "0 \<le> Clamp c 0 1023 \<and> Clamp c 0 1023 \<le> 1023"
  by (simp add: Clamp_def Min_f_def Max_f_def)

lemma morton_bin_le: "morton_bin c \<le> 1023"
proof -
  let ?f = "Clamp (c * 1024) 0 1023"
  have r: "0 \<le> ?f" "?f \<le> 1023" using Clamp_range by auto
  then have "0 \<le> \<lfloor>?f\<rfloor>" "\<lfloor>?f\<rfloor> \<le> 1023" by (simp_all add: floor_le_iff le_floor_iff)
  moreover have "morton_bin c = word_of_int \<lfloor>?f\<rfloor>" using r by (simp add: morton_bin_def to_u32_def)
  ultimately show ?thesis
    by (simp add: word_le_def uint_word_of_int take_bit_int_eq_self)
qed

lemma bit_lad4:
  "bit (lad4 v) n \<longleftrightarrow> n < 30 \<and> n mod 3 = 0 \<and> bit v (n div 3)"
proof (cases "n < 32")
  case True
  then show ?thesis
    by (rule less_32_cases) (simp_all add: lad4_def bit_simps)
next
  case False
  then have "\<not> bit (lad4 v) n"
    using bit_imp_le_length [of "lad4 v" n] by auto
  with False show ?thesis by simp
qed

lemma bit_double_u32:
  fixes w :: u32
  shows "bit (w * 2) n \<longleftrightarrow> 0 < n \<and> n < 32 \<and> bit w (n - 1)"
proof -
  have "w * 2 = push_bit 1 w" by (simp add: push_bit_eq_mult)
  then show ?thesis by (auto simp add: bit_push_bit_iff simp del: push_bit_Suc dest: bit_imp_le_length) 
qed

lemma Morton3D_or:
  "Morton3D x y z = push_bit 2 (lad4 (morton_bin x)) OR push_bit 1 (lad4 (morton_bin y)) OR lad4 (morton_bin z)"
proof -
  let ?a = "lad4 (morton_bin x)" and ?b = "lad4 (morton_bin y)" and ?c = "lad4 (morton_bin z)"
  have "bit (push_bit 2 ?a AND push_bit 1 ?b) n = bit (0 :: u32) n" if "n < 32" for n
    using that by (rule less_32_cases) (simp_all add: bit_simps bit_lad4 bit_double_u32)
  then have d1: "push_bit 2 ?a AND push_bit 1 ?b = 0"
    by (intro bit_word_eqI) simp
  have "bit ((push_bit 2 ?a OR push_bit 1 ?b) AND ?c) n = bit (0 :: u32) n" if "n < 32" for n
    using that by (rule less_32_cases) (simp_all add: bit_simps bit_lad4 bit_double_u32)
  then have d2: "(push_bit 2 ?a OR push_bit 1 ?b) AND ?c = 0"
    by (intro bit_word_eqI) simp
  have "Morton3D x y z = push_bit 2 ?a + push_bit 1 ?b + ?c"
    by (simp add: Morton3D_def morton_bin_def [symmetric] ExpandBits_lad4 morton_bin_le)
  also have "\<dots> = (push_bit 2 ?a OR push_bit 1 ?b) + ?c"
    by (simp only: disjunctive_add_eq_or [OF d1])
  also have "\<dots> = push_bit 2 ?a OR push_bit 1 ?b OR ?c"
    by (simp only: disjunctive_add_eq_or [OF d2] or.assoc)
  finally show ?thesis .
qed

lemma bit_Morton3D:
  "bit (Morton3D x y z) n \<longleftrightarrow>
     n < 30 \<and> bit (if n mod 3 = 2 then morton_bin x else if n mod 3 = 1 then morton_bin y else morton_bin z) (n div 3)"
proof (cases "n < 32")
  case True
  then show ?thesis
    unfolding Morton3D_or
    by (rule less_32_cases) (simp_all add: bit_simps bit_lad4 bit_double_u32)
next
  case False
  then have "\<not> bit (Morton3D x y z) n"
    using bit_imp_le_length [of "Morton3D x y z" n] by auto
  with False show ?thesis by simp
qed

lemma Morton3D_less: "Morton3D x y z < 2 ^ 30"
proof -
  have "take_bit 30 (Morton3D x y z) = Morton3D x y z"
    by (rule bit_eqI) (auto simp: bit_simps bit_Morton3D)
  then have "Morton3D x y z AND mask 30 = Morton3D x y z"
    by (simp add: take_bit_eq_mask)
  then show ?thesis
    using and_mask_less_size [of 30 "Morton3D x y z"] by (simp add: word_size)
qed


text \<open>Bins of a few coordinates, inside and outside the unit interval.\<close>

lemma mb1: "morton_bin (1 / 2) = 512" by (simp add: morton_bin_def to_u32_def Clamp_def Min_f_def Max_f_def)
lemma mb2: "morton_bin 2 = 1023" by (simp add: morton_bin_def to_u32_def Clamp_def Min_f_def Max_f_def)
lemma mb3: "morton_bin (- 1) = 0" by (simp add: morton_bin_def to_u32_def Clamp_def Min_f_def Max_f_def)
lemma mb4: "morton_bin (1025 / 2048) = 512" by (simp add: morton_bin_def to_u32_def Clamp_def Min_f_def Max_f_def)
lemma mb5: "morton_bin 3 = 1023" by (simp add: morton_bin_def to_u32_def Clamp_def Min_f_def Max_f_def)
lemma mb6: "morton_bin (- 5) = 0" by (simp add: morton_bin_def to_u32_def Clamp_def Min_f_def Max_f_def)

subsection \<open>Vector3f\<close>

text \<open>The fields \<open>x\<close>, \<open>y\<close>, \<open>z\<close> of the source are \<open>vx\<close>, \<open>vy\<close>, \<open>vz\<close> here.\<close>

record Vector3f =
  vx :: real
  vy :: real
  vz :: real

definition Vec3 :: "real \<Rightarrow> real \<Rightarrow> real \<Rightarrow> Vector3f" where
  "Vec3 a b c = \<lparr>vx = a, vy = b, vz = c\<rparr>"

definition vadd :: "Vector3f \<Rightarrow> Vector3f \<Rightarrow> Vector3f" where
  "vadd a b = Vec3 (vx a + vx b) (vy a + vy b) (vz a + vz b)"

definition vsub :: "Vector3f \<Rightarrow> Vector3f \<Rightarrow> Vector3f" where
  "vsub a b = Vec3 (vx a - vx b) (vy a - vy b) (vz a - vz b)"

definition vdiv :: "Vector3f \<Rightarrow> Vector3f \<Rightarrow> Vector3f" where
  "vdiv a b = Vec3 (vx a / vx b) (vy a / vy b) (vz a / vz b)"

definition vscale :: "Vector3f \<Rightarrow> real \<Rightarrow> Vector3f" where
  "vscale a s = Vec3 (vx a * s) (vy a * s) (vz a * s)"

definition vdivs :: "Vector3f \<Rightarrow> real \<Rightarrow> Vector3f" where
  "vdivs a s = Vec3 (vx a / s) (vy a / s) (vz a / s)"

definition Dot :: "Vector3f \<Rightarrow> Vector3f \<Rightarrow> real" where
  "Dot lhs rhs = vx lhs * vx rhs + vy lhs * vy rhs + vz lhs * vz rhs"

definition Cross :: "Vector3f \<Rightarrow> Vector3f \<Rightarrow> Vector3f" where
  "Cross lhs rhs = Vec3 (vy lhs * vz rhs - vz lhs * vy rhs)
                        (vz lhs * vx rhs - vx lhs * vz rhs)
                        (vx lhs * vy rhs - vy lhs * vx rhs)"

definition vMin :: "Vector3f \<Rightarrow> Vector3f \<Rightarrow> Vector3f" where
  "vMin lhs rhs = Vec3 (Min_f (vx lhs) (vx rhs)) (Min_f (vy lhs) (vy rhs)) (Min_f (vz lhs) (vz rhs))"

definition vMax :: "Vector3f \<Rightarrow> Vector3f \<Rightarrow> Vector3f" where
  "vMax lhs rhs = Vec3 (Max_f (vx lhs) (vx rhs)) (Max_f (vy lhs) (vy rhs)) (Max_f (vz lhs) (vz rhs))"

definition Max3 :: "Vector3f \<Rightarrow> real" where
  "Max3 a = Max_f (Max_f (vx a) (vy a)) (vz a)"

definition Min3 :: "Vector3f \<Rightarrow> real" where
  "Min3 a = Min_f (Min_f (vx a) (vy a)) (vz a)"

subsection \<open>Moller-Trumbore triangle test\<close>

text \<open>
  \<open>IntersectTriangle\<close> has three in/out parameters \<open>dist\<close> (here \<open>dst\<close>), \<open>u\<close>, \<open>v\<close>; the model
  returns the flag together with their values on exit.
\<close>

definition IntersectTriangle ::
  "Vector3f \<Rightarrow> Vector3f \<Rightarrow> Vector3f \<Rightarrow> Vector3f \<Rightarrow> Vector3f \<Rightarrow> real \<Rightarrow> real
     \<Rightarrow> real \<Rightarrow> real \<Rightarrow> real \<Rightarrow> bool \<times> real \<times> real \<times> real" where
  "IntersectTriangle rayPos rayDir v0 v1 v2 tmin tmax dst u v =
     (let e1 = vsub v1 v0;
          e2 = vsub v2 v0;
          P = Cross rayDir e2;
          det = Dot e1 P
      in if det = 0 then (False, dst, u, v)
         else
           let inv_det = 1 / det;
               T = vsub rayPos v0;
               fu = Dot T P * inv_det
           in if fu < 0 \<or> fu > 1 then (False, dst, u, v)
              else
                let Q = Cross T e1;
                    fv = Dot rayDir Q * inv_det
                in if fv < 0 \<or> fu + fv > 1 then (False, dst, u, v)
                   else
                     let t = Dot e2 Q * inv_det
                     in if t < tmin \<or> tmax \<le> t \<or> t > dst then (False, dst, u, v)
                        else (True, t, fu, fv))"

text \<open>The quantities the function computes on its way, named for the statements below.\<close>

definition mt_det :: "Vector3f \<Rightarrow> Vector3f \<Rightarrow> Vector3f \<Rightarrow> Vector3f \<Rightarrow> real" where
  "mt_det rayDir v0 v1 v2 = Dot (vsub v1 v0) (Cross rayDir (vsub v2 v0))"

definition mt_u :: "Vector3f \<Rightarrow> Vector3f \<Rightarrow> Vector3f \<Rightarrow> Vector3f \<Rightarrow> Vector3f \<Rightarrow> real" where
  "mt_u rayPos rayDir v0 v1 v2 =
     Dot (vsub rayPos v0) (Cross rayDir (vsub v2 v0)) * (1 / mt_det rayDir v0 v1 v2)"

definition mt_v :: "Vector3f \<Rightarrow> Vector3f \<Rightarrow> Vector3f \<Rightarrow> Vector3f \<Rightarrow> Vector3f \<Rightarrow> real" where
  "mt_v rayPos rayDir v0 v1 v2 =
     Dot rayDir (Cross (vsub rayPos v0) (vsub v1 v0)) * (1 / mt_det rayDir v0 v1 v2)"

definition mt_t :: "Vector3f \<Rightarrow> Vector3f \<Rightarrow> Vector3f \<Rightarrow> Vector3f \<Rightarrow> Vector3f \<Rightarrow> real" where
  "mt_t rayPos rayDir v0 v1 v2 =
     Dot (vsub v2 v0) (Cross (vsub rayPos v0) (vsub v1 v0)) * (1 / mt_det rayDir v0 v1 v2)"

definition mt_accepts ::
  "Vector3f \<Rightarrow> Vector3f \<Rightarrow> Vector3f \<Rightarrow> Vector3f \<Rightarrow> Vector3f \<Rightarrow> real \<Rightarrow> real \<Rightarrow> real \<Rightarrow> bool" where
  "mt_accepts rayPos rayDir v0 v1 v2 tmin tmax dst \<longleftrightarrow>
     mt_det rayDir v0 v1 v2 \<noteq> 0
     \<and> 0 \<le> mt_u rayPos rayDir v0 v1 v2 \<and> mt_u rayPos rayDir v0 v1 v2 \<le> 1
     \<and> 0 \<le> mt_v rayPos rayDir v0 v1 v2
     \<and> mt_u rayPos rayDir v0 v1 v2 + mt_v rayPos rayDir v0 v1 v2 \<le> 1
     \<and> tmin \<le> mt_t rayPos rayDir v0 v1 v2 \<and> mt_t rayPos rayDir v0 v1 v2 < tmax
     \<and> mt_t rayPos rayDir v0 v1 v2 \<le> dst"

lemma IntersectTriangle_accept:
  "mt_accepts rayPos rayDir v0 v1 v2 tmin tmax dst \<Longrightarrow>
   IntersectTriangle rayPos rayDir v0 v1 v2 tmin tmax dst u v =
     (True, mt_t rayPos rayDir v0 v1 v2, mt_u rayPos rayDir v0 v1 v2, mt_v rayPos rayDir v0 v1 v2)"
  by (simp add: IntersectTriangle_def mt_accepts_def mt_det_def mt_u_def mt_v_def mt_t_def
      Let_def not_less)

lemma IntersectTriangle_reject:
  "\<not> mt_accepts rayPos rayDir v0 v1 v2 tmin tmax dst \<Longrightarrow>
   IntersectTriangle rayPos rayDir v0 v1 v2 tmin tmax dst u v = (False, dst, u, v)"
  by (auto simp add: IntersectTriangle_def mt_accepts_def mt_det_def mt_u_def mt_v_def mt_t_def
      Let_def not_less not_le)

subsection \<open>AABB\<close>

record AABB =
  mini :: Vector3f
  maxi :: Vector3f

definition AABB_null :: AABB where
  \<comment> \<open>the constructor \<open>AABB(nullptr)\<close>, and \<open>Clear\<close>\<close>
  "AABB_null = \<lparr>mini = Vec3 kMaxBound kMaxBound kMaxBound, maxi = Vec3 kMinBound kMinBound kMinBound\<rparr>"

definition AABB_point :: "Vector3f \<Rightarrow> AABB" where
  "AABB_point val = \<lparr>mini = val, maxi = val\<rparr>"

definition Merge :: "AABB \<Rightarrow> AABB \<Rightarrow> AABB" where
  "Merge b val = \<lparr>mini = vMin (mini b) (mini val), maxi = vMax (maxi b) (maxi val)\<rparr>"

definition MergeP :: "AABB \<Rightarrow> Vector3f \<Rightarrow> AABB" where
  "MergeP b val = \<lparr>mini = vMin (mini b) val, maxi = vMax (maxi b) val\<rparr>"

definition Normalize :: "AABB \<Rightarrow> Vector3f \<Rightarrow> Vector3f" where
  "Normalize b p = vdiv (vsub p (mini b)) (vsub (maxi b) (mini b))"

definition Intersect :: "AABB \<Rightarrow> Vector3f \<Rightarrow> Vector3f \<Rightarrow> real \<Rightarrow> bool" where
  "Intersect b rayPos invRayDir len =
     (let v = Vec3 (((if 0 < vx invRayDir then vx (mini b) else vx (maxi b)) - vx rayPos) * vx invRayDir)
                   (((if 0 < vy invRayDir then vy (mini b) else vy (maxi b)) - vy rayPos) * vy invRayDir)
                   (((if 0 < vz invRayDir then vz (mini b) else vz (maxi b)) - vz rayPos) * vz invRayDir);
          tmin = Max3 v;
          w = Vec3 (((if 0 < vx invRayDir then vx (maxi b) else vx (mini b)) - vx rayPos) * vx invRayDir)
                   (((if 0 < vy invRayDir then vy (maxi b) else vy (mini b)) - vy rayPos) * vy invRayDir)
                   (((if 0 < vz invRayDir then vz (maxi b) else vz (mini b)) - vz rayPos) * vz invRayDir);
          tmax = Min3 w
      in tmin \<le> tmax \<and> 0 < tmax \<and> tmin < len)"

section \<open>The LBVH (s3d\_bvh.h)\<close>

text \<open>
  A read through a null pointer, a read or write outside an array, and a push on the full
  visit stack are undefined behaviour in the source; the model makes them errors.
\<close>

datatype error = NullPointer | OutOfBounds | StackOverflow

record Node =
  Box :: AABB
  L :: u32
  R :: u32

definition Node_default :: Node where
  "Node_default = \<lparr>Box = AABB_null, L = kInvalid, R = kInvalid\<rparr>"

text \<open>
  \<open>Ray\<close> and \<open>HitRecord\<close>. The field \<open>dist\<close>, \<open>u\<close>, \<open>v\<close> of the record are \<open>hdist\<close>,
  \<open>hu\<close>, \<open>hv\<close> here; \<open>face_id\<close> is a C \<open>int\<close>.
\<close>

record Ray =
  pos :: Vector3f
  dir :: Vector3f
  inv_dir :: Vector3f
  tmin :: real
  tmax :: real

record HitRecord =
  hit :: bool
  hdist :: real
  hu :: real
  hv :: real
  face_id :: int

text \<open>
  The mesh pointers are the host's arrays: \<open>None\<close> is the null pointer. \<open>Positions\<close> and
  \<open>Normals\<close> are float arrays read three at a time (the \<open>reinterpret_cast\<close> to
  \<open>Vector3f*\<close>), \<open>Indices\<close> is the \<open>uint32_t\<close> array read two at a time (\<open>VertexIndex\<close>
  is the pair \<open>P\<close>, \<open>N\<close>).
\<close>

record LBVH =
  Root :: u32
  Positions :: "real list option"
  Normals :: "real list option"
  Indices :: "u32 list option"
  PositionCount :: nat
  NormalCount :: nat
  IndexCount :: nat
  Nodes :: "Node list"

definition LBVH_init :: LBVH where
  "LBVH_init = \<lparr>Root = kInvalid, Positions = None, Normals = None, Indices = None,
     PositionCount = 0, NormalCount = 0, IndexCount = 0, Nodes = []\<rparr>"

definition read_vec :: "real list option \<Rightarrow> nat \<Rightarrow> error + Vector3f" where
  "read_vec arr i =
     (case arr of
        None \<Rightarrow> Inl NullPointer
      | Some xs \<Rightarrow>
          if 3 * i + 2 < length xs then Inr (Vec3 (xs ! (3 * i)) (xs ! (3 * i + 1)) (xs ! (3 * i + 2)))
          else Inl OutOfBounds)"

definition read_P :: "u32 list option \<Rightarrow> nat \<Rightarrow> error + u32" where
  "read_P arr i =
     (case arr of
        None \<Rightarrow> Inl NullPointer
      | Some xs \<Rightarrow> if 2 * i < length xs then Inr (xs ! (2 * i)) else Inl OutOfBounds)"

definition read_N :: "u32 list option \<Rightarrow> nat \<Rightarrow> error + u32" where
  "read_N arr i =
     (case arr of
        None \<Rightarrow> Inl NullPointer
      | Some xs \<Rightarrow> if 2 * i + 1 < length xs then Inr (xs ! (2 * i + 1)) else Inl OutOfBounds)"

definition corner_pos :: "LBVH \<Rightarrow> u32 \<Rightarrow> error + Vector3f" where
  \<comment> \<open>\<open>Positions[Indices[k].P]\<close>\<close>
  "corner_pos lb k =
     (case read_P (Indices lb) (unat k) of
        Inl e \<Rightarrow> Inl e
      | Inr p \<Rightarrow> read_vec (Positions lb) (unat p))"

definition corner_nrm :: "LBVH \<Rightarrow> u32 \<Rightarrow> error + Vector3f" where
  \<comment> \<open>\<open>Normals[Indices[k].N]\<close>\<close>
  "corner_nrm lb k =
     (case read_N (Indices lb) (unat k) of
        Inl e \<Rightarrow> Inl e
      | Inr n \<Rightarrow> read_vec (Normals lb) (unat n))"

definition tri_pos :: "LBVH \<Rightarrow> u32 \<Rightarrow> error + Vector3f \<times> Vector3f \<times> Vector3f" where
  \<comment> \<open>the three corners of a face, with \<open>id = face_id * 3\<close> in 32 bits\<close>
  "tri_pos lb fid =
     (let id = fid * 3 in
      case corner_pos lb (id + 0) of
        Inl e \<Rightarrow> Inl e
      | Inr v0 \<Rightarrow>
          (case corner_pos lb (id + 1) of
             Inl e \<Rightarrow> Inl e
           | Inr v1 \<Rightarrow>
               (case corner_pos lb (id + 2) of
                  Inl e \<Rightarrow> Inl e
                | Inr v2 \<Rightarrow> Inr (v0, v1, v2))))"

definition tri_nrm :: "LBVH \<Rightarrow> u32 \<Rightarrow> error + Vector3f \<times> Vector3f \<times> Vector3f" where
  "tri_nrm lb fid =
     (let id = fid * 3 in
      case corner_nrm lb (id + 0) of
        Inl e \<Rightarrow> Inl e
      | Inr n0 \<Rightarrow>
          (case corner_nrm lb (id + 1) of
             Inl e \<Rightarrow> Inl e
           | Inr n1 \<Rightarrow>
               (case corner_nrm lb (id + 2) of
                  Inl e \<Rightarrow> Inl e
                | Inr n2 \<Rightarrow> Inr (n0, n1, n2))))"

definition IsHit_body :: "Ray \<Rightarrow> HitRecord \<Rightarrow> u32 \<Rightarrow> Vector3f \<times> Vector3f \<times> Vector3f \<Rightarrow> HitRecord" where
  \<comment> \<open>the body of \<open>IsHit\<close> once the corners are read\<close>
  "IsHit_body ray rec fid tri =
     (case tri of (v0, v1, v2) \<Rightarrow>
        (case IntersectTriangle (pos ray) (dir ray) v0 v1 v2 (tmin ray) (tmax ray)
                (hdist rec) (hu rec) (hv rec) of
           (ok, d, a, b) \<Rightarrow>
             (let rec' = rec\<lparr>hdist := d, hu := a, hv := b\<rparr>
              in if ok then rec'\<lparr>face_id := sint fid, hit := True\<rparr> else rec')))"

definition IsHit :: "LBVH \<Rightarrow> Ray \<Rightarrow> HitRecord \<Rightarrow> u32 \<Rightarrow> error + HitRecord" where
  "IsHit lb ray rec fid =
     (case tri_pos lb fid of
        Inl e \<Rightarrow> Inl e
      | Inr tri \<Rightarrow> Inr (IsHit_body ray rec fid tri))"

definition CalcPosition :: "LBVH \<Rightarrow> u32 \<Rightarrow> real \<Rightarrow> real \<Rightarrow> real \<Rightarrow> error + Vector3f" where
  "CalcPosition lb fid u v w =
     (case tri_pos lb fid of
        Inl e \<Rightarrow> Inl e
      | Inr (p0, p1, p2) \<Rightarrow> Inr (vadd (vadd (vscale p0 w) (vscale p1 u)) (vscale p2 v)))"

definition CalcNormal :: "LBVH \<Rightarrow> u32 \<Rightarrow> real \<Rightarrow> real \<Rightarrow> real \<Rightarrow> error + Vector3f" where
  "CalcNormal lb fid u v w =
     (case tri_nrm lb fid of
        Inl e \<Rightarrow> Inl e
      | Inr (n0, n1, n2) \<Rightarrow> Inr (vadd (vadd (vscale n0 w) (vscale n1 u)) (vscale n2 v)))"

subsection \<open>Traversal\<close>

text \<open>
  \<open>TraverseIterative\<close>: the live part of \<open>visit_stack\<close> is a list with its top at the
  head, so \<open>stack_ptr\<close> is its length and a push with \<open>stack_ptr = 64\<close> writes past the
  array. The loop need not end on arbitrary \<open>Nodes\<close>; the model counts loop iterations
  down from a bound and is \<open>None\<close> when the bound is used up.
\<close>

definition push_child :: "u32 \<Rightarrow> u32 list \<Rightarrow> error + u32 list" where
  "push_child idx stack = (if length stack < 64 then Inr (idx # stack) else Inl StackOverflow)"

definition visit_child ::
  "LBVH \<Rightarrow> Ray \<Rightarrow> u32 \<Rightarrow> u32 list \<times> HitRecord \<Rightarrow> error + u32 list \<times> HitRecord" where
  \<comment> \<open>one of the two \<open>if (child & 0x1) IsHit(...) else push\<close> statements\<close>
  "visit_child lb ray child st =
     (case st of (stack, rec) \<Rightarrow>
        (let idx = drop_bit 1 child in
         if child AND 1 \<noteq> 0 then
           (case IsHit lb ray rec idx of Inl e \<Rightarrow> Inl e | Inr rec' \<Rightarrow> Inr (stack, rec'))
         else
           (case push_child idx stack of Inl e \<Rightarrow> Inl e | Inr stack' \<Rightarrow> Inr (stack', rec))))"

fun TraverseLoop ::
  "nat \<Rightarrow> LBVH \<Rightarrow> Ray \<Rightarrow> u32 list \<Rightarrow> HitRecord \<Rightarrow> (error + HitRecord) option" where
  "TraverseLoop n lb ray [] rec = Some (Inr rec)"
| "TraverseLoop 0 lb ray (idx # stack) rec = None"
| "TraverseLoop (Suc n) lb ray (idx # stack) rec =
     (if unat idx < length (Nodes lb) then
        (let node = Nodes lb ! unat idx in
         if \<not> Intersect (Box node) (pos ray) (inv_dir ray) (hdist rec) then
           TraverseLoop n lb ray stack rec
         else
           (case visit_child lb ray (L node) (stack, rec) of
              Inl e \<Rightarrow> Some (Inl e)
            | Inr st1 \<Rightarrow>
                (case visit_child lb ray (R node) st1 of
                   Inl e \<Rightarrow> Some (Inl e)
                 | Inr (stack2, rec2) \<Rightarrow> TraverseLoop n lb ray stack2 rec2)))
      else Some (Inl OutOfBounds))"

definition TraverseIterative :: "nat \<Rightarrow> LBVH \<Rightarrow> Ray \<Rightarrow> HitRecord \<Rightarrow> (error + HitRecord) option" where
  "TraverseIterative n lb ray rec = TraverseLoop n lb ray [Root lb] rec"

subsection \<open>Build\<close>

text \<open>
  A leaf is the \<open>Vector2u\<close> of the source: \<open>x\<close> (here \<open>fst\<close>) is the triangle, \<open>y\<close>
  (\<open>snd\<close>) its Morton code.
\<close>

type_synonym leaf = "u32 \<times> u32"

definition Delta :: "leaf list \<Rightarrow> u32 \<Rightarrow> error + u32" where
  "Delta leaves k =
     (if unat (k + 1) < length leaves \<and> unat k < length leaves
      then Inr (snd (leaves ! unat (k + 1)) XOR snd (leaves ! unat k))
      else Inl OutOfBounds)"

definition mesh_box :: "LBVH \<Rightarrow> error + AABB" where
  \<comment> \<open>the box of all positions: \<open>box.Clear()\<close>, then \<open>box.Merge(Positions[i])\<close> for each \<open>i\<close>\<close>
  "mesh_box lb =
     fold (\<lambda>i acc. case acc of
                      Inl e \<Rightarrow> Inl e
                    | Inr b \<Rightarrow> (case read_vec (Positions lb) i of
                                 Inl e \<Rightarrow> Inl e
                               | Inr p \<Rightarrow> Inr (MergeP b p)))
          [0..<PositionCount lb] (Inr AABB_null)"

definition leaf_code :: "LBVH \<Rightarrow> AABB \<Rightarrow> u32 \<Rightarrow> error + leaf" where
  \<comment> \<open>the body of the first \<open>parallel_for\<close>: the Morton code of the centroid of face \<open>i\<close>\<close>
  "leaf_code lb box i =
     (case tri_pos lb i of
        Inl e \<Rightarrow> Inl e
      | Inr (p0, p1, p2) \<Rightarrow>
          (let centroid = vdivs (vadd (vadd p0 p1) p2) 3;
               unitcube = Normalize box centroid
           in Inr (i, Morton3D (vx unitcube) (vy unitcube) (vz unitcube))))"

fun sequence_e :: "(error + 'a) list \<Rightarrow> error + 'a list" where
  "sequence_e [] = Inr []"
| "sequence_e (x # xs) =
     (case x of
        Inl e \<Rightarrow> Inl e
      | Inr v \<Rightarrow> (case sequence_e xs of Inl e \<Rightarrow> Inl e | Inr vs \<Rightarrow> Inr (v # vs)))"

definition leaves_fill :: "LBVH \<Rightarrow> AABB \<Rightarrow> u32 \<Rightarrow> error + leaf list" where
  "leaves_fill lb box T = sequence_e (map (\<lambda>i. leaf_code lb box (of_nat i)) [0..<unat T])"

text \<open>
  \<open>std::sort\<close> with the comparison \<open>lhs.y < rhs.y\<close> leaves the order of equal codes open:
  any arrangement of the leaves in ascending code order is a possible outcome.
\<close>

definition is_sort_of :: "leaf list \<Rightarrow> leaf list \<Rightarrow> bool" where
  "is_sort_of leaves sorted_leaves \<longleftrightarrow>
     mset sorted_leaves = mset leaves \<and> sorted (map snd sorted_leaves)"

definition leaf_aabb :: "LBVH \<Rightarrow> AABB \<Rightarrow> u32 \<Rightarrow> error + AABB" where
  \<comment> \<open>the box of a triangle, moved by \<open>- box.mini\<close>\<close>
  "leaf_aabb lb box tri =
     (case tri_pos lb tri of
        Inl e \<Rightarrow> Inl e
      | Inr (p0, p1, p2) \<Rightarrow>
          (let a = MergeP (MergeP (AABB_point p0) p1) p2
           in Inr \<lparr>mini = vsub (mini a) (mini box), maxi = vsub (maxi a) (mini box)\<rparr>))"

text \<open>
  The third \<open>parallel_for\<close> runs one climb per leaf, all at once. A climb is modelled by
  its local variables and a program point; the shared memory is \<open>Nodes\<close>, \<open>other_bounds\<close>
  and \<open>Root\<close>. The local \<open>L\<close>, \<open>R\<close> are \<open>cL\<close>, \<open>cR\<close> here. The program points:
  \<^item> \<open>Loop\<close>: the head of \<open>while(1)\<close>; one step runs up to and including the atomic
    \<open>exchange\<close> and the store of the child index (no other climb reads or writes that field);
  \<^item> \<open>MergeRead\<close>, \<open>MergeWrite\<close>: \<open>Nodes[parent].Box.Merge(aabb)\<close>, a plain read of the box
    followed by a plain write;
  \<^item> \<open>Finish\<close>: the test \<open>kInvalid == previous\<close> and the reload of \<open>aabb\<close> from the node;
  \<^item> \<open>Done\<close>: after \<open>break\<close>.
\<close>

datatype pc = Loop | MergeRead | MergeWrite | Finish | Done

record climb =
  current :: u32
  cL :: u32
  cR :: u32
  aabb :: AABB
  is_leaf :: bool
  parent :: u32
  previous :: u32
  held :: AABB
  pc :: pc

record build_state =
  bNodes :: "Node list"
  other_bounds :: "u32 list"
  bRoot :: u32
  threads :: "climb list"
  fault :: "error option"

definition climb_init :: "u32 \<Rightarrow> AABB \<Rightarrow> climb" where
  "climb_init i box = \<lparr>current = i, cL = i, cR = i, aabb = box, is_leaf = True,
     parent = 0, previous = 0, held = AABB_null, pc = Loop\<rparr>"

definition threads_init :: "LBVH \<Rightarrow> AABB \<Rightarrow> leaf list \<Rightarrow> error + climb list" where
  "threads_init lb box leaves =
     sequence_e (map (\<lambda>i. case leaf_aabb lb box (fst (leaves ! i)) of
                             Inl e \<Rightarrow> Inl e
                           | Inr a \<Rightarrow> Inr (climb_init (of_nat i) a))
                     [0..<length leaves])"

definition child_index :: "leaf list \<Rightarrow> climb \<Rightarrow> error + u32" where
  \<comment> \<open>\<open>(is_leaf) ? (leaves[current].x << 1) + 1 : current << 1\<close>\<close>
  "child_index leaves c =
     (if is_leaf c then
        (if unat (current c) < length leaves
         then Inr (push_bit 1 (fst (leaves ! unat (current c))) + 1)
         else Inl OutOfBounds)
      else Inr (push_bit 1 (current c)))"

definition right_is_parent :: "leaf list \<Rightarrow> u32 \<Rightarrow> climb \<Rightarrow> error + bool" where
  \<comment> \<open>\<open>0 == L || (R != N && Delta(leaves, R) < Delta(leaves, L - 1))\<close>, evaluated left to right\<close>
  "right_is_parent leaves N c =
     (if cL c = 0 then Inr True
      else if cR c = N then Inr False
      else (case Delta leaves (cR c) of
              Inl e \<Rightarrow> Inl e
            | Inr dr \<Rightarrow> (case Delta leaves (cL c - 1) of
                          Inl e \<Rightarrow> Inl e
                        | Inr dl \<Rightarrow> Inr (dr < dl))))"

definition set_thread :: "nat \<Rightarrow> climb \<Rightarrow> build_state \<Rightarrow> build_state" where
  "set_thread t c st = st\<lparr>threads := (threads st)[t := c]\<rparr>"

definition loop_step :: "leaf list \<Rightarrow> u32 \<Rightarrow> nat \<Rightarrow> climb \<Rightarrow> build_state \<Rightarrow> build_state" where
  "loop_step leaves N t c st =
     (if cL c = 0 \<and> cR c = N then set_thread t (c\<lparr>pc := Done\<rparr>) (st\<lparr>bRoot := current c\<rparr>)
      else
        (case child_index leaves c of
           Inl e \<Rightarrow> st\<lparr>fault := Some e\<rparr>
         | Inr index \<Rightarrow>
             (case right_is_parent leaves N c of
                Inl e \<Rightarrow> st\<lparr>fault := Some e\<rparr>
              | Inr right \<Rightarrow>
                  (let par = (if right then cR c else cL c - 1) in
                   if unat par < length (other_bounds st) \<and> unat par < length (bNodes st) then
                     (let prev = other_bounds st ! unat par;
                          ob = (other_bounds st)[unat par := (if right then cL c else cR c)];
                          c1 = (if prev \<noteq> kInvalid
                                then (if right then c\<lparr>cR := prev\<rparr> else c\<lparr>cL := prev\<rparr>)
                                else c);
                          node = bNodes st ! unat par;
                          nodes = (bNodes st)[unat par :=
                                    (if right then node\<lparr>L := index\<rparr> else node\<lparr>R := index\<rparr>)]
                      in set_thread t (c1\<lparr>parent := par, previous := prev, pc := MergeRead\<rparr>)
                           (st\<lparr>other_bounds := ob, bNodes := nodes\<rparr>))
                   else st\<lparr>fault := Some OutOfBounds\<rparr>))))"

definition step :: "leaf list \<Rightarrow> u32 \<Rightarrow> nat \<Rightarrow> build_state \<Rightarrow> build_state" where
  \<comment> \<open>one step of climb \<open>t\<close>; nothing moves after a fault, and a finished climb stays put\<close>
  "step leaves N t st =
     (if fault st \<noteq> None \<or> length (threads st) \<le> t then st
      else
        (let c = threads st ! t in
         case pc c of
           Done \<Rightarrow> st
         | Loop \<Rightarrow> loop_step leaves N t c st
         | MergeRead \<Rightarrow>
             (if unat (parent c) < length (bNodes st)
              then set_thread t (c\<lparr>held := Box (bNodes st ! unat (parent c)), pc := MergeWrite\<rparr>) st
              else st\<lparr>fault := Some OutOfBounds\<rparr>)
         | MergeWrite \<Rightarrow>
             (if unat (parent c) < length (bNodes st)
              then set_thread t (c\<lparr>pc := Finish\<rparr>)
                     (st\<lparr>bNodes := (bNodes st)[unat (parent c) :=
                            (bNodes st ! unat (parent c))\<lparr>Box := Merge (held c) (aabb c)\<rparr>]\<rparr>)
              else st\<lparr>fault := Some OutOfBounds\<rparr>)
         | Finish \<Rightarrow>
             (if previous c = kInvalid then set_thread t (c\<lparr>pc := Done\<rparr>) st
              else if unat (parent c) < length (bNodes st)
              then set_thread t (c\<lparr>current := parent c, aabb := Box (bNodes st ! unat (parent c)),
                                   is_leaf := False, pc := Loop\<rparr>) st
              else st\<lparr>fault := Some OutOfBounds\<rparr>)))"

definition run :: "leaf list \<Rightarrow> u32 \<Rightarrow> nat list \<Rightarrow> build_state \<Rightarrow> build_state" where
  \<comment> \<open>a schedule names the climb that moves next\<close>
  "run leaves N sched st = fold (step leaves N) sched st"

definition resize_nodes :: "Node list \<Rightarrow> nat \<Rightarrow> Node list" where
  \<comment> \<open>\<open>std::vector::resize\<close>: existing elements stay, new ones are default-constructed\<close>
  "resize_nodes nodes n = take n nodes @ replicate (n - length nodes) Node_default"

definition untranslate :: "AABB \<Rightarrow> Node \<Rightarrow> Node" where
  "untranslate box node =
     node\<lparr>Box := \<lparr>mini = vadd (mini (Box node)) (mini box), maxi = vadd (maxi (Box node)) (mini box)\<rparr>\<rparr>"

definition all_done :: "build_state \<Rightarrow> bool" where
  "all_done st \<longleftrightarrow> list_all (\<lambda>c. pc c = Done) (threads st)"

text \<open>
  \<open>Build\<close>, for one outcome of the sort and one schedule of the climbs. The result is
  \<open>None\<close> when the two do not describe a run of the source: \<open>sorted_leaves\<close> is not an
  ascending arrangement of the leaves, or the schedule stops before every climb has.
\<close>

definition Build :: "LBVH \<Rightarrow> leaf list \<Rightarrow> nat list \<Rightarrow> (error + LBVH) option" where
  "Build lb sorted_leaves sched =
     (case mesh_box lb of
        Inl e \<Rightarrow> Some (Inl e)
      | Inr box \<Rightarrow>
          (let T = (of_nat (IndexCount lb div 3) :: u32) in
           case leaves_fill lb box T of
             Inl e \<Rightarrow> Some (Inl e)
           | Inr leaves \<Rightarrow>
               if \<not> is_sort_of leaves sorted_leaves then None
               else
                 (let N = T - 1 in
                  case threads_init lb box sorted_leaves of
                    Inl e \<Rightarrow> Some (Inl e)
                  | Inr ths \<Rightarrow>
                      (let st = run sorted_leaves N sched
                                  \<lparr>bNodes = resize_nodes (Nodes lb) (unat N),
                                   other_bounds = replicate (unat N) kInvalid,
                                   bRoot = Root lb, threads = ths, fault = None\<rparr>
                       in case fault st of
                            Some e \<Rightarrow> Some (Inl e)
                          | None \<Rightarrow>
                              if all_done st
                              then Some (Inr (lb\<lparr>Root := bRoot st,
                                                 Nodes := map (untranslate box) (bNodes st)\<rparr>))
                              else None))))"

section \<open>The host interface (dll\_main.cpp)\<close>

definition rec_init :: "real \<Rightarrow> HitRecord" where
  \<comment> \<open>the record \<open>intersect\<close> starts from; \<open>u\<close>, \<open>v\<close>, \<open>face_id\<close> are uninitialised there\<close>
  "rec_init far = \<lparr>hit = False, hdist = far, hu = 0, hv = 0, face_id = 0\<rparr>"

definition preprocess ::
  "real list option \<Rightarrow> nat \<Rightarrow> real list option \<Rightarrow> nat \<Rightarrow> u32 list option \<Rightarrow> nat
     \<Rightarrow> LBVH \<Rightarrow> leaf list \<Rightarrow> nat list \<Rightarrow> (error + LBVH) option" where
  "preprocess vertices vertexCount normals normalCount indices faceCount gLBVH sorted_leaves sched =
     Build (gLBVH\<lparr>PositionCount := vertexCount, Positions := vertices,
                  NormalCount := normalCount, Normals := normals,
                  IndexCount := faceCount * 3, Indices := indices\<rparr>) sorted_leaves sched"

text \<open>
  Modelled from the spec: the ray descriptor of the host (\<open>Ray\<close> of \<open>rayrun.hpp\<close>, which is
  not among the sources). It supplies origin \<open>pos[3]\<close>, direction \<open>dir[3]\<close>, the valid
  flag, \<open>tnear\<close> and \<open>tfar\<close>, and receives \<open>isisect\<close>, \<open>isect[3]\<close> and \<open>ns[3]\<close>. The arrays of
  three floats are vectors here, and \<open>pos\<close>, \<open>dir\<close> are named \<open>rpos\<close>, \<open>rdir\<close>. Any further
  field of the descriptor is the record's extension.
\<close>

record HostRay =
  rpos :: Vector3f
  rdir :: Vector3f
  valid :: bool
  tnear :: real
  tfar :: real
  isisect :: bool
  isect :: Vector3f
  ns :: Vector3f

definition intersect_ray ::
  "nat \<Rightarrow> LBVH \<Rightarrow> 'a HostRay_scheme \<Rightarrow> (error + 'a HostRay_scheme) option" where
  \<comment> \<open>the body of the \<open>for\<close> loop of \<open>intersect\<close>\<close>
  "intersect_ray n lb r =
     (if \<not> valid r then Some (Inr (r\<lparr>isisect := False\<rparr>))
      else
        (let ray = \<lparr>pos = rpos r, dir = rdir r,
                    inv_dir = Vec3 (1 / vx (rdir r)) (1 / vy (rdir r)) (1 / vz (rdir r)),
                    tmin = tnear r, tmax = tfar r\<rparr>
         in case TraverseIterative n lb ray (rec_init (tfar r)) of
              None \<Rightarrow> None
            | Some (Inl e) \<Rightarrow> Some (Inl e)
            | Some (Inr rec) \<Rightarrow>
                (let r1 = r\<lparr>isisect := hit rec\<rparr> in
                 if hit rec then
                   (let w = 1 - hu rec - hv rec in
                    case CalcPosition lb (word_of_int (face_id rec)) (hu rec) (hv rec) w of
                      Inl e \<Rightarrow> Some (Inl e)
                    | Inr p \<Rightarrow>
                        (case CalcNormal lb (word_of_int (face_id rec)) (hu rec) (hv rec) w of
                           Inl e \<Rightarrow> Some (Inl e)
                         | Inr nrm \<Rightarrow> Some (Inr (r1\<lparr>isect := p, ns := nrm\<rparr>))))
                 else Some (Inr r1))))"

fun intersect_loop ::
  "nat \<Rightarrow> LBVH \<Rightarrow> nat \<Rightarrow> nat \<Rightarrow> 'a HostRay_scheme list \<Rightarrow> (error + 'a HostRay_scheme list) option" where
  \<comment> \<open>the loop \<open>for (i = 0; i < rayCount; ++i)\<close>, at index \<open>i\<close> with \<open>rayCount - i\<close> rounds to go\<close>
  "intersect_loop n lb i 0 rays = Some (Inr rays)"
| "intersect_loop n lb i (Suc k) rays =
     (if i < length rays then
        (case intersect_ray n lb (rays ! i) of
           None \<Rightarrow> None
         | Some (Inl e) \<Rightarrow> Some (Inl e)
         | Some (Inr r) \<Rightarrow> intersect_loop n lb (Suc i) k (rays[i := r]))
      else Some (Inl OutOfBounds))"

definition intersect ::
  "nat \<Rightarrow> LBVH \<Rightarrow> 'a HostRay_scheme list \<Rightarrow> nat \<Rightarrow> (error + 'a HostRay_scheme list) option" where
  \<comment> \<open>\<open>intersect(rays, rayCount, hitAny)\<close> on the global \<open>gLBVH\<close>; \<open>hitAny\<close> is unused\<close>
  "intersect n lb rays rayCount = intersect_loop n lb 0 rayCount rays"

section \<open>Example scenes\<close>

text \<open>
  Two triangles in the plane \<open>z = 0\<close> that both contain the point \<open>(1/4, 1/4, 0)\<close>, and
  a ray that reaches the plane there at \<open>t = 1\<close>. All coordinates are small dyadic
  numbers, so the float arithmetic of the source is exact on them.
\<close>

definition tie_lb :: LBVH where
  "tie_lb = LBVH_init\<lparr>
     Positions := Some [0, 0, 0,  1, 0, 0,  0, 1, 0,  2, 0, 0,  0, 2, 0],
     Normals := Some [0, 0, 1],
     Indices := Some [0, 0, 1, 0, 2, 0,  0, 0, 3, 0, 4, 0],
     PositionCount := 5, NormalCount := 1, IndexCount := 6\<rparr>"

definition tie_ray :: Ray where
  "tie_ray = \<lparr>pos = Vec3 (- (3 / 4)) (- (3 / 4)) 1, dir = Vec3 1 1 (- 1), inv_dir = Vec3 1 1 (- 1),
     tmin = 0, tmax = 10\<rparr>"

definition miss_ray :: Ray where
  "miss_ray = \<lparr>pos = Vec3 4 4 1, dir = Vec3 1 1 (- 1), inv_dir = Vec3 1 1 (- 1),
     tmin = 0, tmax = 10\<rparr>"

lemmas vec_defs = Vec3_def vsub_def vadd_def vscale_def vdiv_def Cross_def Dot_def

lemma tie_tri_pos_0: "tri_pos tie_lb 0 = Inr (Vec3 0 0 0, Vec3 1 0 0, Vec3 0 1 0)"
  by (simp add: tri_pos_def corner_pos_def read_P_def read_vec_def tie_lb_def LBVH_init_def)

lemma tie_tri_pos_1: "tri_pos tie_lb 1 = Inr (Vec3 0 0 0, Vec3 2 0 0, Vec3 0 2 0)"
  by (simp add: tri_pos_def corner_pos_def read_P_def read_vec_def tie_lb_def LBVH_init_def)

lemma tie_IsHit_0:
  "IsHit tie_lb tie_ray (rec_init 10) 0
     = Inr \<lparr>hit = True, hdist = 1, hu = 1 / 4, hv = 1 / 4, face_id = 0\<rparr>"
  by (simp add: IsHit_def tie_tri_pos_0 IsHit_body_def IntersectTriangle_def vec_defs tie_ray_def
      rec_init_def Let_def)

lemma tie_IsHit_1:
  "IsHit tie_lb tie_ray \<lparr>hit = True, hdist = 1, hu = 1 / 4, hv = 1 / 4, face_id = 0\<rparr> 1
     = Inr \<lparr>hit = True, hdist = 1, hu = 1 / 8, hv = 1 / 8, face_id = 1\<rparr>"
  by (simp add: IsHit_def tie_tri_pos_1 IsHit_body_def IntersectTriangle_def vec_defs tie_ray_def
      Let_def)

section \<open>The triangle test\<close>

text \<open>
  C10. When \<open>IntersectTriangle\<close> returns false, \<open>dist\<close>, \<open>u\<close> and \<open>v\<close> are unchanged; so
  \<open>IsHit\<close> on a rejected triangle returns the record it was given (\<open>hit\<close>, \<open>dist\<close>, \<open>u\<close>,
  \<open>v\<close>, \<open>face_id\<close> all as before).
\<close>

theorem IntersectTriangle_false_unchanged:
  "(\<not> fst (IntersectTriangle rayPos rayDir v0 v1 v2 lo hi dst u v) \<longrightarrow>
      IntersectTriangle rayPos rayDir v0 v1 v2 lo hi dst u v = (False, dst, u, v))
   \<and> (tri_pos lb fid = Inr (w0, w1, w2)
        \<and> \<not> fst (IntersectTriangle (pos ray) (dir ray) w0 w1 w2 (tmin ray) (tmax ray)
                   (hdist rec) (hu rec) (hv rec))
      \<longrightarrow> IsHit lb ray rec fid = Inr rec)"
proof (intro conjI impI)
  assume "\<not> fst (IntersectTriangle rayPos rayDir v0 v1 v2 lo hi dst u v)"
  then have "\<not> mt_accepts rayPos rayDir v0 v1 v2 lo hi dst"
    using IntersectTriangle_accept [of rayPos rayDir v0 v1 v2 lo hi dst u v] by auto
  then show "IntersectTriangle rayPos rayDir v0 v1 v2 lo hi dst u v = (False, dst, u, v)"
    by (rule IntersectTriangle_reject)
next
  assume h: "tri_pos lb fid = Inr (w0, w1, w2)
        \<and> \<not> fst (IntersectTriangle (pos ray) (dir ray) w0 w1 w2 (tmin ray) (tmax ray)
                   (hdist rec) (hu rec) (hv rec))"
  then have "\<not> mt_accepts (pos ray) (dir ray) w0 w1 w2 (tmin ray) (tmax ray) (hdist rec)"
    using IntersectTriangle_accept [of "pos ray" "dir ray" w0 w1 w2 "tmin ray" "tmax ray"
        "hdist rec" "hu rec" "hv rec"] by auto
  then have "IntersectTriangle (pos ray) (dir ray) w0 w1 w2 (tmin ray) (tmax ray)
                   (hdist rec) (hu rec) (hv rec) = (False, hdist rec, hu rec, hv rec)"
    by (rule IntersectTriangle_reject)
  with h show "IsHit lb ray rec fid = Inr rec"
    by (simp add: IsHit_def IsHit_body_def)
qed

theorem IntersectTriangle_false_unchanged_witness:
  "\<not> fst (IntersectTriangle (Vec3 4 4 1) (Vec3 1 1 (- 1)) (Vec3 0 0 0) (Vec3 1 0 0) (Vec3 0 1 0)
            0 10 5 7 9)
   \<and> IntersectTriangle (Vec3 4 4 1) (Vec3 1 1 (- 1)) (Vec3 0 0 0) (Vec3 1 0 0) (Vec3 0 1 0)
            0 10 5 7 9 = (False, 5, 7, 9)
   \<and> tri_pos tie_lb 0 = Inr (Vec3 0 0 0, Vec3 1 0 0, Vec3 0 1 0)
   \<and> IsHit tie_lb miss_ray \<lparr>hit = True, hdist = 5, hu = 7, hv = 9, face_id = 3\<rparr> 0
       = Inr \<lparr>hit = True, hdist = 5, hu = 7, hv = 9, face_id = 3\<rparr>"
proof -
  have a: "\<not> fst (IntersectTriangle (Vec3 4 4 1) (Vec3 1 1 (- 1)) (Vec3 0 0 0) (Vec3 1 0 0)
              (Vec3 0 1 0) 0 10 5 7 9)"
    by (simp add: IntersectTriangle_def vec_defs Let_def)
  show ?thesis
    using a tie_tri_pos_0
      IntersectTriangle_false_unchanged [of "Vec3 4 4 1" "Vec3 1 1 (- 1)" "Vec3 0 0 0"
        "Vec3 1 0 0" "Vec3 0 1 0" 0 10 5 7 9 tie_lb 0 "Vec3 0 0 0" "Vec3 1 0 0" "Vec3 0 1 0"
        miss_ray "\<lparr>hit = True, hdist = 5, hu = 7, hv = 9, face_id = 3\<rparr>"]
    by (simp add: miss_ray_def)
qed

text \<open>
  C3, as stated: once a hit at distance \<open>t\<close> is recorded, a later triangle whose distance
  equals \<open>record.dist\<close> is rejected and leaves the record alone. The test that rejects on
  distance is \<open>t > dist\<close>, so a later triangle at the same distance is accepted: in the
  scene above face 0 is recorded at \<open>t = 1\<close>, and face 1, also at \<open>t = 1\<close>, replaces
  \<open>u\<close>, \<open>v\<close> and \<open>face_id\<close>.
\<close>

theorem equal_dist_displaces_counterexample:
  "IsHit tie_lb tie_ray (rec_init 10) 0
     = Inr \<lparr>hit = True, hdist = 1, hu = 1 / 4, hv = 1 / 4, face_id = 0\<rparr>
   \<and> mt_t (pos tie_ray) (dir tie_ray) (Vec3 0 0 0) (Vec3 2 0 0) (Vec3 0 2 0) = 1
   \<and> tri_pos tie_lb 1 = Inr (Vec3 0 0 0, Vec3 2 0 0, Vec3 0 2 0)
   \<and> fst (IntersectTriangle (pos tie_ray) (dir tie_ray) (Vec3 0 0 0) (Vec3 2 0 0) (Vec3 0 2 0)
            (tmin tie_ray) (tmax tie_ray) 1 (1 / 4) (1 / 4))
   \<and> IsHit tie_lb tie_ray \<lparr>hit = True, hdist = 1, hu = 1 / 4, hv = 1 / 4, face_id = 0\<rparr> 1
     = Inr \<lparr>hit = True, hdist = 1, hu = 1 / 8, hv = 1 / 8, face_id = 1\<rparr>"
proof -
  have "mt_t (pos tie_ray) (dir tie_ray) (Vec3 0 0 0) (Vec3 2 0 0) (Vec3 0 2 0) = 1"
    by (simp add: mt_t_def mt_det_def vec_defs tie_ray_def)
  moreover have "fst (IntersectTriangle (pos tie_ray) (dir tie_ray) (Vec3 0 0 0) (Vec3 2 0 0)
            (Vec3 0 2 0) (tmin tie_ray) (tmax tie_ray) 1 (1 / 4) (1 / 4))"
    by (simp add: IntersectTriangle_def vec_defs tie_ray_def Let_def)
  ultimately show ?thesis
    using tie_IsHit_0 tie_IsHit_1 tie_tri_pos_1 by simp
qed

text \<open>
  C3, amended: a later triangle that passes the determinant and barycentric tests with
  \<open>tmin \<le> t < tmax\<close> and whose distance \<open>t\<close> equals \<open>record.dist\<close> is accepted:
  \<open>IntersectTriangle\<close> returns true and \<open>IsHit\<close> overwrites \<open>u\<close>, \<open>v\<close> and \<open>face_id\<close> with
  the later triangle's values, \<open>dist\<close> keeping its value. A triangle is rejected on
  distance only when \<open>t > record.dist\<close>, and then the record is unchanged.
\<close>

theorem equal_dist_accepted:
  assumes "tri_pos lb fid = Inr (v0, v1, v2)"
  shows "(mt_accepts (pos ray) (dir ray) v0 v1 v2 (tmin ray) (tmax ray) (tmax ray)
            \<and> mt_t (pos ray) (dir ray) v0 v1 v2 = hdist rec \<longrightarrow>
          fst (IntersectTriangle (pos ray) (dir ray) v0 v1 v2 (tmin ray) (tmax ray)
                 (hdist rec) (hu rec) (hv rec))
          \<and> IsHit lb ray rec fid
              = Inr (rec\<lparr>hu := mt_u (pos ray) (dir ray) v0 v1 v2,
                         hv := mt_v (pos ray) (dir ray) v0 v1 v2,
                         face_id := sint fid, hit := True\<rparr>))
       \<and> (mt_t (pos ray) (dir ray) v0 v1 v2 > hdist rec \<longrightarrow>
          \<not> fst (IntersectTriangle (pos ray) (dir ray) v0 v1 v2 (tmin ray) (tmax ray)
                 (hdist rec) (hu rec) (hv rec))
          \<and> IsHit lb ray rec fid = Inr rec)"
proof (intro conjI impI)
  assume h: "mt_accepts (pos ray) (dir ray) v0 v1 v2 (tmin ray) (tmax ray) (tmax ray)
            \<and> mt_t (pos ray) (dir ray) v0 v1 v2 = hdist rec"
  then have acc: "mt_accepts (pos ray) (dir ray) v0 v1 v2 (tmin ray) (tmax ray) (hdist rec)"
    by (simp add: mt_accepts_def)
  note it = IntersectTriangle_accept [OF acc, of "hu rec" "hv rec"]
  show "fst (IntersectTriangle (pos ray) (dir ray) v0 v1 v2 (tmin ray) (tmax ray)
                 (hdist rec) (hu rec) (hv rec))"
    by (simp add: it)
  show "IsHit lb ray rec fid
              = Inr (rec\<lparr>hu := mt_u (pos ray) (dir ray) v0 v1 v2,
                         hv := mt_v (pos ray) (dir ray) v0 v1 v2,
                         face_id := sint fid, hit := True\<rparr>)"
    using h by (simp add: IsHit_def assms IsHit_body_def it)
next
  assume h: "mt_t (pos ray) (dir ray) v0 v1 v2 > hdist rec"
  then have rej: "\<not> mt_accepts (pos ray) (dir ray) v0 v1 v2 (tmin ray) (tmax ray) (hdist rec)"
    by (simp add: mt_accepts_def)
  note it = IntersectTriangle_reject [OF rej, of "hu rec" "hv rec"]
  show "\<not> fst (IntersectTriangle (pos ray) (dir ray) v0 v1 v2 (tmin ray) (tmax ray)
                 (hdist rec) (hu rec) (hv rec))"
    by (simp add: it)
  show "IsHit lb ray rec fid = Inr rec"
    by (simp add: IsHit_def assms IsHit_body_def it)
qed

theorem equal_dist_accepted_witness:
  "tri_pos tie_lb 1 = Inr (Vec3 0 0 0, Vec3 2 0 0, Vec3 0 2 0)
   \<and> mt_accepts (pos tie_ray) (dir tie_ray) (Vec3 0 0 0) (Vec3 2 0 0) (Vec3 0 2 0)
        (tmin tie_ray) (tmax tie_ray) (tmax tie_ray)
   \<and> mt_t (pos tie_ray) (dir tie_ray) (Vec3 0 0 0) (Vec3 2 0 0) (Vec3 0 2 0) = 1
   \<and> IsHit tie_lb tie_ray \<lparr>hit = True, hdist = 1, hu = 1 / 4, hv = 1 / 4, face_id = 0\<rparr> 1
       = Inr \<lparr>hit = True, hdist = 1, hu = 1 / 8, hv = 1 / 8, face_id = 1\<rparr>
   \<and> mt_t (pos tie_ray) (dir tie_ray) (Vec3 0 0 0) (Vec3 2 0 0) (Vec3 0 2 0) > 1 / 2
   \<and> IsHit tie_lb tie_ray \<lparr>hit = True, hdist = 1 / 2, hu = 1 / 4, hv = 1 / 4, face_id = 0\<rparr> 1
       = Inr \<lparr>hit = True, hdist = 1 / 2, hu = 1 / 4, hv = 1 / 4, face_id = 0\<rparr>"
proof -
  have d: "mt_det (dir tie_ray) (Vec3 0 0 0) (Vec3 2 0 0) (Vec3 0 2 0) = 4"
    by (simp add: mt_det_def vec_defs tie_ray_def)
  have t: "mt_t (pos tie_ray) (dir tie_ray) (Vec3 0 0 0) (Vec3 2 0 0) (Vec3 0 2 0) = 1"
    by (simp add: mt_t_def d) (simp add: vec_defs tie_ray_def)
  have u: "mt_u (pos tie_ray) (dir tie_ray) (Vec3 0 0 0) (Vec3 2 0 0) (Vec3 0 2 0) = 1 / 8"
    by (simp add: mt_u_def d) (simp add: vec_defs tie_ray_def)
  have v: "mt_v (pos tie_ray) (dir tie_ray) (Vec3 0 0 0) (Vec3 2 0 0) (Vec3 0 2 0) = 1 / 8"
    by (simp add: mt_v_def d) (simp add: vec_defs tie_ray_def)
  have acc: "mt_accepts (pos tie_ray) (dir tie_ray) (Vec3 0 0 0) (Vec3 2 0 0) (Vec3 0 2 0)
        (tmin tie_ray) (tmax tie_ray) (tmax tie_ray)"
    by (simp add: mt_accepts_def d t u v) (simp add: tie_ray_def)
  show ?thesis
    using acc
      equal_dist_accepted [OF tie_tri_pos_1, of tie_ray
        "\<lparr>hit = True, hdist = 1, hu = 1 / 4, hv = 1 / 4, face_id = 0\<rparr>"]
      equal_dist_accepted [OF tie_tri_pos_1, of tie_ray
        "\<lparr>hit = True, hdist = 1 / 2, hu = 1 / 4, hv = 1 / 4, face_id = 0\<rparr>"]
    by (simp add: t u v tie_tri_pos_1)
qed

section \<open>Floats with infinities and NaN\<close>

text \<open>
  The sections above compute on exact reals. Where a claim depends on what a C++ \<open>float\<close>
  does at its special values, the function is read again on the type \<open>ieee\<close>: a number, an
  infinity, or NaN. An operation on numbers gives the exact result when that lies within
  \<open>[-FLT_MAX, FLT_MAX]\<close> and the infinity of its sign beyond; the rounding of the mantissa
  is not modelled, and zero carries no sign (a division by zero takes the divisor as \<open>+0\<close>).
  The special values follow IEEE 754: NaN is contagious, \<open>inf - inf\<close>, \<open>0 * inf\<close>, \<open>0 / 0\<close>
  and \<open>inf / inf\<close> are NaN, and every ordered comparison with NaN is false.
\<close>

datatype ieee = Fin real | PInf | NInf | NaN

definition rnd :: "real \<Rightarrow> ieee" where
  "rnd r = (if kMaxBound < r then PInf else if r < kMinBound then NInf else Fin r)"

fun fneg :: "ieee \<Rightarrow> ieee" where
  "fneg (Fin a) = Fin (- a)"
| "fneg PInf = NInf"
| "fneg NInf = PInf"
| "fneg NaN = NaN"

fun fadd :: "ieee \<Rightarrow> ieee \<Rightarrow> ieee" where
  "fadd (Fin a) (Fin b) = rnd (a + b)"
| "fadd NaN b = NaN"
| "fadd a NaN = NaN"
| "fadd PInf NInf = NaN"
| "fadd NInf PInf = NaN"
| "fadd PInf b = PInf"
| "fadd a PInf = PInf"
| "fadd NInf b = NInf"
| "fadd a NInf = NInf"

definition fsub :: "ieee \<Rightarrow> ieee \<Rightarrow> ieee" where
  "fsub a b = fadd a (fneg b)"

definition inf_of :: "bool \<Rightarrow> ieee" where
  "inf_of positive = (if positive then PInf else NInf)"

fun fmul :: "ieee \<Rightarrow> ieee \<Rightarrow> ieee" where
  "fmul (Fin a) (Fin b) = rnd (a * b)"
| "fmul NaN b = NaN"
| "fmul a NaN = NaN"
| "fmul (Fin a) PInf = (if a = 0 then NaN else inf_of (0 < a))"
| "fmul (Fin a) NInf = (if a = 0 then NaN else inf_of (a < 0))"
| "fmul PInf (Fin b) = (if b = 0 then NaN else inf_of (0 < b))"
| "fmul NInf (Fin b) = (if b = 0 then NaN else inf_of (b < 0))"
| "fmul PInf PInf = PInf"
| "fmul NInf NInf = PInf"
| "fmul PInf NInf = NInf"
| "fmul NInf PInf = NInf"

fun fdiv :: "ieee \<Rightarrow> ieee \<Rightarrow> ieee" where
  "fdiv (Fin a) (Fin b) =
     (if b = 0 then (if a = 0 then NaN else inf_of (0 < a)) else rnd (a / b))"
| "fdiv NaN b = NaN"
| "fdiv a NaN = NaN"
| "fdiv (Fin a) PInf = Fin 0"
| "fdiv (Fin a) NInf = Fin 0"
| "fdiv PInf (Fin b) = inf_of (0 \<le> b)"
| "fdiv NInf (Fin b) = inf_of (b < 0)"
| "fdiv PInf PInf = NaN"
| "fdiv PInf NInf = NaN"
| "fdiv NInf PInf = NaN"
| "fdiv NInf NInf = NaN"

fun flt :: "ieee \<Rightarrow> ieee \<Rightarrow> bool" where
  "flt (Fin a) (Fin b) \<longleftrightarrow> a < b"
| "flt NaN b \<longleftrightarrow> False"
| "flt a NaN \<longleftrightarrow> False"
| "flt NInf NInf \<longleftrightarrow> False"
| "flt NInf b \<longleftrightarrow> True"
| "flt a NInf \<longleftrightarrow> False"
| "flt PInf b \<longleftrightarrow> False"
| "flt a PInf \<longleftrightarrow> True"

definition fgt :: "ieee \<Rightarrow> ieee \<Rightarrow> bool" where
  "fgt a b \<longleftrightarrow> flt b a"

definition feq :: "ieee \<Rightarrow> ieee \<Rightarrow> bool" where
  "feq a b \<longleftrightarrow> a = b \<and> a \<noteq> NaN"

definition fle :: "ieee \<Rightarrow> ieee \<Rightarrow> bool" where
  "fle a b \<longleftrightarrow> flt a b \<or> feq a b"

lemma NaN_right [simp]:
  "fadd a NaN = NaN" "fmul a NaN = NaN" "fdiv a NaN = NaN" "\<not> flt a NaN"
  by (cases a; simp)+

subsection \<open>Morton3D on floats\<close>

definition Min_ieee :: "ieee \<Rightarrow> ieee \<Rightarrow> ieee" where
  "Min_ieee lhs rhs = (if flt lhs rhs then lhs else rhs)"

definition Max_ieee :: "ieee \<Rightarrow> ieee \<Rightarrow> ieee" where
  "Max_ieee lhs rhs = (if fgt lhs rhs then lhs else rhs)"

definition Clamp_ieee :: "ieee \<Rightarrow> ieee \<Rightarrow> ieee \<Rightarrow> ieee" where
  "Clamp_ieee val lo hi = Max_ieee lo (Min_ieee hi val)"

text \<open>
  The cast \<open>(uint32_t)x\<close> truncates towards zero when the truncated value is a \<open>uint32_t\<close>;
  for every other float, NaN and the infinities among them, the C++ standard leaves the
  behaviour undefined, which is \<open>None\<close> here.
\<close>

fun to_u32_ieee :: "ieee \<Rightarrow> u32 option" where
  "to_u32_ieee (Fin f) =
     (let i = (if 0 \<le> f then \<lfloor>f\<rfloor> else \<lceil>f\<rceil>)
      in if 0 \<le> i \<and> i < 4294967296 then Some (word_of_int i) else None)"
| "to_u32_ieee PInf = None"
| "to_u32_ieee NInf = None"
| "to_u32_ieee NaN = None"

definition Morton3D_ieee :: "ieee \<Rightarrow> ieee \<Rightarrow> ieee \<Rightarrow> u32 option" where
  "Morton3D_ieee x y z =
     (let x' = Clamp_ieee (fmul x (Fin 1024)) (Fin 0) (Fin 1023);
          y' = Clamp_ieee (fmul y (Fin 1024)) (Fin 0) (Fin 1023);
          z' = Clamp_ieee (fmul z (Fin 1024)) (Fin 0) (Fin 1023)
      in case to_u32_ieee x' of
           None \<Rightarrow> None
         | Some xi \<Rightarrow>
             (case to_u32_ieee y' of
                None \<Rightarrow> None
              | Some yi \<Rightarrow>
                  (case to_u32_ieee z' of
                     None \<Rightarrow> None
                   | Some zi \<Rightarrow>
                       Some (push_bit 2 (ExpandBits xi) + push_bit 1 (ExpandBits yi)
                             + ExpandBits zi))))"

text \<open>The bin of a coordinate: the clamped, truncated value that \<open>ExpandBits\<close> receives.\<close>

definition bin_ieee :: "ieee \<Rightarrow> u32 option" where
  "bin_ieee c = to_u32_ieee (Clamp_ieee (fmul c (Fin 1024)) (Fin 0) (Fin 1023))"

lemma kMaxBound_gt: "1048576 < kMaxBound"
  by (simp add: kMaxBound_def)

lemma clamp_ieee_Fin:
  "Clamp_ieee (fmul (Fin r) (Fin 1024)) (Fin 0) (Fin 1023) = Fin (Clamp (r * 1024) 0 1023)"
proof -
  have k: "1023 < kMaxBound" "kMinBound < 0" using kMaxBound_gt by (simp_all add: kMinBound_def)
  show ?thesis
    using k by (simp add: rnd_def Clamp_ieee_def Min_ieee_def Max_ieee_def fgt_def Clamp_def
        Min_f_def Max_f_def)
qed

lemma clamp_ieee_PInf: "Clamp_ieee (fmul PInf (Fin 1024)) (Fin 0) (Fin 1023) = Fin 1023"
  by (simp add: Clamp_ieee_def Min_ieee_def Max_ieee_def fgt_def inf_of_def)

lemma clamp_ieee_NInf: "Clamp_ieee (fmul NInf (Fin 1024)) (Fin 0) (Fin 1023) = Fin 0"
  by (simp add: Clamp_ieee_def Min_ieee_def Max_ieee_def fgt_def inf_of_def)

lemma Clamp_ieee_NaN: "Clamp_ieee NaN lo hi = NaN"
  by (simp add: Clamp_ieee_def Min_ieee_def Max_ieee_def fgt_def)

lemma bin_ieee_NaN: "bin_ieee NaN = None"
  by (simp add: bin_ieee_def Clamp_ieee_NaN)

text \<open>A real that stands for a float that is not NaN: the infinities clamp like 1 and -1.\<close>

fun stand_in :: "ieee \<Rightarrow> real" where
  "stand_in (Fin r) = r"
| "stand_in PInf = 1"
| "stand_in NInf = - 1"
| "stand_in NaN = 0"

lemma to_u32_ieee_clamped:
  "to_u32_ieee (Fin (Clamp c 0 1023)) = Some (to_u32 (Clamp c 0 1023))"
proof -
  let ?f = "Clamp c 0 1023"
  have r: "0 \<le> ?f" "?f \<le> 1023" using Clamp_range by auto
  then have "0 \<le> \<lfloor>?f\<rfloor>" "\<lfloor>?f\<rfloor> \<le> 1023" by (simp_all add: floor_le_iff le_floor_iff)
  with r show ?thesis by (simp add: to_u32_def Let_def)
qed

lemma bin_ieee_stand_in:
  assumes "c \<noteq> NaN"
  shows "bin_ieee c = Some (morton_bin (stand_in c))"
proof (cases c)
  case (Fin r)
  then show ?thesis
    by (simp only: bin_ieee_def clamp_ieee_Fin to_u32_ieee_clamped morton_bin_def stand_in.simps)
next
  case PInf
  have "bin_ieee PInf = to_u32_ieee (Fin 1023)" by (simp only: bin_ieee_def clamp_ieee_PInf)
  moreover have "morton_bin 1 = 1023"
    by (simp add: morton_bin_def to_u32_def Clamp_def Min_f_def Max_f_def)
  ultimately show ?thesis using PInf by simp
next
  case NInf
  have "bin_ieee NInf = to_u32_ieee (Fin 0)" by (simp only: bin_ieee_def clamp_ieee_NInf)
  moreover have "morton_bin (- 1) = 0"
    by (simp add: morton_bin_def to_u32_def Clamp_def Min_f_def Max_f_def)
  ultimately show ?thesis using NInf by simp
next
  case NaN
  with assms show ?thesis by simp
qed

lemma Morton3D_ieee_stand_in:
  assumes "x \<noteq> NaN" and "y \<noteq> NaN" and "z \<noteq> NaN"
  shows "Morton3D_ieee x y z = Some (Morton3D (stand_in x) (stand_in y) (stand_in z))"
  using bin_ieee_stand_in [OF assms(1)] bin_ieee_stand_in [OF assms(2)]
    bin_ieee_stand_in [OF assms(3)]
  by (simp add: Morton3D_ieee_def bin_ieee_def Morton3D_def morton_bin_def Let_def)

lemma clamp_ieee_cases:
  assumes "c \<noteq> NaN"
  shows "(\<exists>r. Clamp_ieee (fmul c (Fin 1024)) (Fin 0) (Fin 1023) = Fin r \<and> 0 \<le> r \<and> r \<le> 1023)
   \<and> (flt (fmul c (Fin 1024)) (Fin 0) \<longrightarrow> Clamp_ieee (fmul c (Fin 1024)) (Fin 0) (Fin 1023) = Fin 0)
   \<and> (flt (Fin 1023) (fmul c (Fin 1024))
        \<longrightarrow> Clamp_ieee (fmul c (Fin 1024)) (Fin 0) (Fin 1023) = Fin 1023)
   \<and> (fle (Fin 0) (fmul c (Fin 1024)) \<and> fle (fmul c (Fin 1024)) (Fin 1023)
        \<longrightarrow> Clamp_ieee (fmul c (Fin 1024)) (Fin 0) (Fin 1023) = fmul c (Fin 1024))"
proof (cases c)
  case (Fin r)
  have k: "1023 < kMaxBound" "kMinBound < 0" using kMaxBound_gt by (simp_all add: kMinBound_def)
  have 1: "\<exists>q. Clamp_ieee (fmul c (Fin 1024)) (Fin 0) (Fin 1023) = Fin q \<and> 0 \<le> q \<and> q \<le> 1023"
    unfolding Fin clamp_ieee_Fin using Clamp_range [of "r * 1024"] by simp
  have 2: "flt (fmul c (Fin 1024)) (Fin 0) \<longrightarrow> Clamp_ieee (fmul c (Fin 1024)) (Fin 0) (Fin 1023) = Fin 0"
    unfolding Fin clamp_ieee_Fin using k
    by (simp add: rnd_def Clamp_def Min_f_def Max_f_def split: if_splits)
  have 3: "flt (Fin 1023) (fmul c (Fin 1024))
        \<longrightarrow> Clamp_ieee (fmul c (Fin 1024)) (Fin 0) (Fin 1023) = Fin 1023"
    unfolding Fin clamp_ieee_Fin using k
    by (simp add: rnd_def Clamp_def Min_f_def Max_f_def split: if_splits)
  have 4: "fle (Fin 0) (fmul c (Fin 1024)) \<and> fle (fmul c (Fin 1024)) (Fin 1023)
        \<longrightarrow> Clamp_ieee (fmul c (Fin 1024)) (Fin 0) (Fin 1023) = fmul c (Fin 1024)"
    unfolding Fin clamp_ieee_Fin using k
    by (auto simp add: rnd_def Clamp_def Min_f_def Max_f_def fle_def feq_def split: if_splits)
  from 1 2 3 4 show ?thesis by blast
next
  case PInf
  then show ?thesis
    by (simp add: Clamp_ieee_def Min_ieee_def Max_ieee_def fgt_def inf_of_def fle_def feq_def)
next
  case NInf
  then show ?thesis
    by (simp add: Clamp_ieee_def Min_ieee_def Max_ieee_def fgt_def inf_of_def fle_def feq_def)
next
  case NaN
  with assms show ?thesis by simp
qed

text \<open>
  C8, as the claim states it: false. For a NaN coordinate, which is what \<open>AABB::Normalize\<close>
  hands over for a mesh that is flat along an axis (\<open>(p.z - mini.z) / (maxi.z - mini.z)\<close> is
  \<open>0 / 0\<close>), both ternaries of \<open>Clamp\<close> take their second branch: the value stays NaN instead
  of landing in \<open>[0, 1023]\<close>, and the cast to \<open>uint32_t\<close> is undefined, so no code below \<open>2^30\<close>
  is promised.
\<close>

theorem Morton3D_nan_counterexample:
  "fdiv (fsub (Fin 0) (Fin 0)) (fsub (Fin 0) (Fin 0)) = NaN
   \<and> Clamp_ieee (fmul NaN (Fin 1024)) (Fin 0) (Fin 1023) = NaN
   \<and> \<not> fle (Fin 0) (Clamp_ieee (fmul NaN (Fin 1024)) (Fin 0) (Fin 1023))
   \<and> \<not> fle (Clamp_ieee (fmul NaN (Fin 1024)) (Fin 0) (Fin 1023)) (Fin 1023)
   \<and> Morton3D_ieee (Fin (1 / 2)) (Fin (1 / 2)) NaN = None"
proof -
  have k: "0 \<le> kMaxBound" "kMinBound \<le> 0" using kMaxBound_gt by (simp_all add: kMinBound_def)
  have "fdiv (fsub (Fin 0) (Fin 0)) (fsub (Fin 0) (Fin 0)) = NaN"
    using k by (simp add: fsub_def rnd_def)
  moreover have "Morton3D_ieee (Fin (1 / 2)) (Fin (1 / 2)) NaN = None"
    by (simp add: Morton3D_ieee_def Clamp_ieee_NaN Let_def split: option.splits)
  ultimately show ?thesis
    by (simp add: Clamp_ieee_NaN fle_def feq_def)
qed

text \<open>
  C8, amended. For coordinates that are not NaN (the infinities included), \<open>Morton3D\<close> clamps
  each coordinate times 1024 to \<open>[0, 1023]\<close> (values outside saturate at the ends, they do
  not wrap), the cast is defined and every bin is at most 1023; the code is the bitwise OR
  of the three expanded bins shifted by 2, 1 and 0 (the sums of the source carry nothing),
  where \<open>ExpandBits\<close> is the four-step ladder of the 32-bit overload; bit \<open>k\<close> of the x, y, z
  bin is bit \<open>3k+2\<close>, \<open>3k+1\<close>, \<open>3k\<close> of the code, the code is below \<open>2^30\<close>, and equal bins
  give equal codes.
\<close>

theorem Morton3D_ieee_spec:
  assumes "c \<noteq> NaN" and "x \<noteq> NaN" and "y \<noteq> NaN" and "z \<noteq> NaN"
  shows
  "(\<exists>r. Clamp_ieee (fmul c (Fin 1024)) (Fin 0) (Fin 1023) = Fin r \<and> 0 \<le> r \<and> r \<le> 1023)
   \<and> (flt (fmul c (Fin 1024)) (Fin 0) \<longrightarrow> Clamp_ieee (fmul c (Fin 1024)) (Fin 0) (Fin 1023) = Fin 0)
   \<and> (flt (Fin 1023) (fmul c (Fin 1024))
        \<longrightarrow> Clamp_ieee (fmul c (Fin 1024)) (Fin 0) (Fin 1023) = Fin 1023)
   \<and> (fle (Fin 0) (fmul c (Fin 1024)) \<and> fle (fmul c (Fin 1024)) (Fin 1023)
        \<longrightarrow> Clamp_ieee (fmul c (Fin 1024)) (Fin 0) (Fin 1023) = fmul c (Fin 1024))
   \<and> (\<exists>xi yi zi.
        bin_ieee x = Some xi \<and> bin_ieee y = Some yi \<and> bin_ieee z = Some zi
        \<and> xi \<le> 1023 \<and> yi \<le> 1023 \<and> zi \<le> 1023
        \<and> ExpandBits xi =
            ((((((xi * 0x00010001) AND 0xFF0000FF) * 0x00000101) AND 0x0F00F00F) * 0x00000011)
                AND 0xC30C30C3) * 0x00000005 AND 0x49249249
        \<and> Morton3D_ieee x y z
            = Some (push_bit 2 (ExpandBits xi) OR push_bit 1 (ExpandBits yi) OR ExpandBits zi)
        \<and> (\<forall>k<10. bit (the (Morton3D_ieee x y z)) (3 * k + 2) = bit xi k
                  \<and> bit (the (Morton3D_ieee x y z)) (3 * k + 1) = bit yi k
                  \<and> bit (the (Morton3D_ieee x y z)) (3 * k) = bit zi k)
        \<and> the (Morton3D_ieee x y z) < 2 ^ 30
        \<and> (\<forall>x' y' z'. bin_ieee x' = Some xi \<and> bin_ieee y' = Some yi \<and> bin_ieee z' = Some zi
              \<longrightarrow> Morton3D_ieee x' y' z' = Morton3D_ieee x y z))"
proof -
  define xi where "xi = morton_bin (stand_in x)"
  define yi where "yi = morton_bin (stand_in y)"
  define zi where "zi = morton_bin (stand_in z)"
  note bx = bin_ieee_stand_in [OF assms(2), folded xi_def]
  note by' = bin_ieee_stand_in [OF assms(3), folded yi_def]
  note bz = bin_ieee_stand_in [OF assms(4), folded zi_def]
  note m = Morton3D_ieee_stand_in [OF assms(2,3,4)]
  have le: "xi \<le> 1023" "yi \<le> 1023" "zi \<le> 1023"
    by (simp_all add: xi_def yi_def zi_def morton_bin_le)
  have lad: "ExpandBits xi =
            ((((((xi * 0x00010001) AND 0xFF0000FF) * 0x00000101) AND 0x0F00F00F) * 0x00000011)
                AND 0xC30C30C3) * 0x00000005 AND 0x49249249"
    by (simp add: ExpandBits_def)
  have orr: "Morton3D_ieee x y z
            = Some (push_bit 2 (ExpandBits xi) OR push_bit 1 (ExpandBits yi) OR ExpandBits zi)"
    unfolding m xi_def yi_def zi_def
    by (simp only: Morton3D_or ExpandBits_lad4 [OF morton_bin_le])
  have bits: "bit (the (Morton3D_ieee x y z)) (3 * k + 2) = bit xi k
              \<and> bit (the (Morton3D_ieee x y z)) (3 * k + 1) = bit yi k
              \<and> bit (the (Morton3D_ieee x y z)) (3 * k) = bit zi k" if "k < 10" for k
  proof -
    have "(3 * k + 2) mod 3 = 2" "(3 * k + 1) mod 3 = 1" "(3 * k) mod 3 = 0"
      "(3 * k + 2) div 3 = k" "(3 * k + 1) div 3 = k" "(3 * k) div 3 = k"
      by presburger+
    moreover have "3 * k + 2 < 30" "3 * k + 1 < 30" "3 * k < 30" using that by simp_all
    ultimately show ?thesis by (simp add: m bit_Morton3D xi_def yi_def zi_def)
  qed
  have less: "the (Morton3D_ieee x y z) < 2 ^ 30"
    using Morton3D_less [of "stand_in x" "stand_in y" "stand_in z"] by (simp add: m)
  have same: "Morton3D_ieee x' y' z' = Morton3D_ieee x y z"
    if h: "bin_ieee x' = Some xi \<and> bin_ieee y' = Some yi \<and> bin_ieee z' = Some zi" for x' y' z'
  proof -
    have nn: "x' \<noteq> NaN" "y' \<noteq> NaN" "z' \<noteq> NaN"
      using h by (auto simp: bin_ieee_NaN)
    from h bin_ieee_stand_in [OF nn(1)] bin_ieee_stand_in [OF nn(2)] bin_ieee_stand_in [OF nn(3)]
    have "morton_bin (stand_in x') = xi" "morton_bin (stand_in y') = yi"
      "morton_bin (stand_in z') = zi" by simp_all
    then show ?thesis
      unfolding m Morton3D_ieee_stand_in [OF nn] by (simp add: Morton3D_or xi_def yi_def zi_def)
  qed
  from bx by' bz le lad orr bits less same
  have "\<exists>xi yi zi.
        bin_ieee x = Some xi \<and> bin_ieee y = Some yi \<and> bin_ieee z = Some zi
        \<and> xi \<le> 1023 \<and> yi \<le> 1023 \<and> zi \<le> 1023
        \<and> ExpandBits xi =
            ((((((xi * 0x00010001) AND 0xFF0000FF) * 0x00000101) AND 0x0F00F00F) * 0x00000011)
                AND 0xC30C30C3) * 0x00000005 AND 0x49249249
        \<and> Morton3D_ieee x y z
            = Some (push_bit 2 (ExpandBits xi) OR push_bit 1 (ExpandBits yi) OR ExpandBits zi)
        \<and> (\<forall>k<10. bit (the (Morton3D_ieee x y z)) (3 * k + 2) = bit xi k
                  \<and> bit (the (Morton3D_ieee x y z)) (3 * k + 1) = bit yi k
                  \<and> bit (the (Morton3D_ieee x y z)) (3 * k) = bit zi k)
        \<and> the (Morton3D_ieee x y z) < 2 ^ 30
        \<and> (\<forall>x' y' z'. bin_ieee x' = Some xi \<and> bin_ieee y' = Some yi \<and> bin_ieee z' = Some zi
              \<longrightarrow> Morton3D_ieee x' y' z' = Morton3D_ieee x y z)"
    by blast
  with clamp_ieee_cases [OF assms(1)] show ?thesis by blast
qed

lemma bin_ieee_examples:
  "bin_ieee (Fin (1 / 2)) = Some 512" "bin_ieee PInf = Some 1023" "bin_ieee NInf = Some 0"
  "bin_ieee (Fin (1025 / 2048)) = Some 512" "bin_ieee (Fin 3) = Some 1023"
  "bin_ieee (Fin (- 5)) = Some 0"
  by (simp_all add: bin_ieee_stand_in mb1 mb2 mb3 mb4 mb5 mb6
      morton_bin_def to_u32_def Clamp_def Min_f_def Max_f_def)

theorem Morton3D_ieee_spec_witness:
  "Fin 2 \<noteq> NaN \<and> Fin (1 / 2) \<noteq> NaN \<and> PInf \<noteq> NaN \<and> NInf \<noteq> NaN
   \<and> flt (Fin 1023) (fmul (Fin 2) (Fin 1024))
   \<and> Clamp_ieee (fmul (Fin 2) (Fin 1024)) (Fin 0) (Fin 1023) = Fin 1023
   \<and> bin_ieee (Fin (1 / 2)) = Some 512 \<and> bin_ieee PInf = Some 1023 \<and> bin_ieee NInf = Some 0
   \<and> Morton3D_ieee (Fin (1025 / 2048)) (Fin 3) (Fin (- 5)) = Morton3D_ieee (Fin (1 / 2)) PInf NInf
   \<and> the (Morton3D_ieee (Fin (1 / 2)) PInf NInf) < 2 ^ 30"
proof -
  have nn: "Fin 2 \<noteq> NaN" "Fin (1 / 2) \<noteq> NaN" "PInf \<noteq> NaN" "NInf \<noteq> NaN" by simp_all
  note th = Morton3D_ieee_spec [OF nn]
  have big: "flt (Fin 1023) (fmul (Fin 2) (Fin 1024))"
    using kMaxBound_gt by (simp add: rnd_def kMinBound_def)
  from th big have c: "Clamp_ieee (fmul (Fin 2) (Fin 1024)) (Fin 0) (Fin 1023) = Fin 1023"
    by blast
  from th obtain xi yi zi where b: "bin_ieee (Fin (1 / 2)) = Some xi" "bin_ieee PInf = Some yi"
      "bin_ieee NInf = Some zi"
    and less: "the (Morton3D_ieee (Fin (1 / 2)) PInf NInf) < 2 ^ 30"
    and same: "\<forall>x' y' z'. bin_ieee x' = Some xi \<and> bin_ieee y' = Some yi \<and> bin_ieee z' = Some zi
              \<longrightarrow> Morton3D_ieee x' y' z' = Morton3D_ieee (Fin (1 / 2)) PInf NInf"
    by blast
  from b have v: "xi = 512" "yi = 1023" "zi = 0" by (simp_all add: bin_ieee_examples)
  from same [rule_format, of "Fin (1025 / 2048)" "Fin 3" "Fin (- 5)"] v
  have s: "Morton3D_ieee (Fin (1025 / 2048)) (Fin 3) (Fin (- 5)) = Morton3D_ieee (Fin (1 / 2)) PInf NInf"
    by (simp add: bin_ieee_examples)
  from nn big c s less show ?thesis
    by (simp only: bin_ieee_examples) simp
qed

subsection \<open>IntersectTriangle on floats\<close>

























































section \<open>More example scenes\<close>

text \<open>
  One triangle, and two triangles in the plane \<open>z = y\<close>, the second inside the first.
  The box of the positions is a cube with a power-of-two side, and no quantity below
  depends on how a float division by 3 rounds.
\<close>

definition one_lb :: LBVH where
  "one_lb = LBVH_init\<lparr>
     Positions := Some [0, 0, 0,  2, 0, 0,  0, 2, 2],
     Normals := Some [0, 1, - 1],
     Indices := Some [0, 0, 1, 0, 2, 0],
     PositionCount := 3, NormalCount := 1, IndexCount := 3\<rparr>"

definition two_lb :: LBVH where
  "two_lb = LBVH_init\<lparr>
     Positions := Some [0, 0, 0,  4, 0, 0,  0, 4, 4,  2, 0, 0,  0, 2, 2],
     Normals := Some [0, 1, - 1],
     Indices := Some [0, 0, 1, 0, 2, 0,  0, 0, 3, 0, 4, 0],
     PositionCount := 5, NormalCount := 1, IndexCount := 6\<rparr>"

definition two_sorted :: "leaf list" where
  \<comment> \<open>face 1 lies nearer the origin and has the smaller code\<close>
  "two_sorted = [(1, 14913080), (0, 119304647)]"

definition two_nodes :: "AABB \<Rightarrow> Node list" where
  "two_nodes b = [\<lparr>Box = b, L = 3, R = 1\<rparr>]"

definition two_bvh :: LBVH where
  "two_bvh = two_lb\<lparr>Root := 0, Nodes := two_nodes \<lparr>mini = Vec3 0 0 0, maxi = Vec3 4 4 4\<rparr>\<rparr>"

definition two_bvh_raced :: LBVH where
  "two_bvh_raced = two_lb\<lparr>Root := 0, Nodes := two_nodes \<lparr>mini = Vec3 0 0 0, maxi = Vec3 2 2 2\<rparr>\<rparr>"

definition hit_ray :: Ray where
  \<comment> \<open>reaches the point \<open>(1/2, 1/2, 1/2)\<close> of both faces at \<open>t = 1\<close>\<close>
  "hit_ray = \<lparr>pos = Vec3 (- (1 / 2)) (- (1 / 2)) (3 / 2), dir = Vec3 1 1 (- 1),
     inv_dir = Vec3 1 1 (- 1), tmin = 0, tmax = 10\<rparr>"

definition far_ray :: Ray where
  \<comment> \<open>reaches the point \<open>(3, 1/2, 1/2)\<close> of face 0 at \<open>t = 1\<close>\<close>
  "far_ray = \<lparr>pos = Vec3 2 (- (1 / 2)) (3 / 2), dir = Vec3 1 1 (- 1),
     inv_dir = Vec3 1 1 (- 1), tmin = 0, tmax = 10\<rparr>"

text \<open>The climbs one after the other, and a schedule in which both read the box of node 0
  before either writes it back.\<close>

definition sched_seq :: "nat list" where
  "sched_seq = [0, 0, 0, 0, 1, 1, 1, 1, 1]"

definition sched_race :: "nat list" where
  "sched_race = [0, 1, 0, 1, 1, 0, 0, 1, 1]"

lemma two_build_seq: "Build two_lb two_sorted sched_seq = Some (Inr two_bvh)"
  by code_simp

lemma two_build_race: "Build two_lb two_sorted sched_race = Some (Inr two_bvh_raced)"
  by code_simp

text \<open>
  Brute force, from the spec's words: a loop that calls \<open>IsHit\<close> on every triangle
  \<open>0 .. T-1\<close>, starting from the same record.
\<close>

definition brute_force :: "LBVH \<Rightarrow> Ray \<Rightarrow> HitRecord \<Rightarrow> nat \<Rightarrow> error + HitRecord" where
  "brute_force lb ray rec T =
     fold (\<lambda>i acc. case acc of Inl e \<Rightarrow> Inl e | Inr r \<Rightarrow> IsHit lb ray r (of_nat i))
          [0..<T] (Inr rec)"

section \<open>The host interface\<close>

lemma intersect_ray_frame:
  assumes "intersect_ray n lb r = Some (Inr r')"
  shows "rpos r' = rpos r \<and> rdir r' = rdir r \<and> valid r' = valid r \<and> tnear r' = tnear r
         \<and> tfar r' = tfar r \<and> HostRay.more r' = HostRay.more r
         \<and> (\<not> valid r \<longrightarrow> r' = r\<lparr>isisect := False\<rparr>)
         \<and> (\<not> isisect r' \<longrightarrow> isect r' = isect r \<and> ns r' = ns r)"
  using assms
  by (auto simp: intersect_ray_def Let_def split: if_splits option.splits sum.splits)

lemma intersect_loop_frame:
  assumes "intersect_loop n lb i k rays = Some (Inr rays')"
  shows "length rays' = length rays
         \<and> (\<forall>j<length rays.
              (j < i \<or> i + k \<le> j \<longrightarrow> rays' ! j = rays ! j)
              \<and> (i \<le> j \<and> j < i + k \<longrightarrow> intersect_ray n lb (rays ! j) = Some (Inr (rays' ! j))))"
  using assms
proof (induction k arbitrary: i rays)
  case 0
  then show ?case by auto
next
  case (Suc k)
  from Suc.prems have il: "i < length rays"
    by (simp split: if_splits)
  from Suc.prems il obtain r where
    r: "intersect_ray n lb (rays ! i) = Some (Inr r)"
    and rest: "intersect_loop n lb (Suc i) k (rays[i := r]) = Some (Inr rays')"
    by (simp split: option.splits sum.splits)
  note ih = Suc.IH [OF rest]
  show ?case
  proof (intro conjI allI impI)
    show "length rays' = length rays" using ih by simp
  next
    fix j assume j: "j < length rays" and c: "j < i \<or> i + Suc k \<le> j"
    then have "rays' ! j = rays[i := r] ! j" using ih by auto
    then show "rays' ! j = rays ! j" using c by auto
  next
    fix j assume j: "j < length rays" and c: "i \<le> j \<and> j < i + Suc k"
    show "intersect_ray n lb (rays ! j) = Some (Inr (rays' ! j))"
    proof (cases "j = i")
      case True
      then have "rays' ! j = rays[i := r] ! j" using ih j by auto
      with True r il show ?thesis by simp
    next
      case False
      then have "intersect_ray n lb (rays[i := r] ! j) = Some (Inr (rays' ! j))"
        using ih j c by auto
      with False show ?thesis by simp
    qed
  qed
qed

text \<open>
  C9. For every ray descriptor passed to \<open>intersect\<close>: \<open>pos\<close>, \<open>dir\<close>, \<open>tnear\<close>, \<open>tfar\<close>,
  \<open>valid\<close> (and any further field) are as before; an invalid ray within \<open>rayCount\<close> is the
  old descriptor with \<open>isisect = false\<close>; and \<open>isect\<close> or \<open>ns\<close> differ from before only on a
  valid ray whose \<open>isisect\<close> is now true.
\<close>

theorem intersect_frame:
  assumes "intersect n lb rays rayCount = Some (Inr rays')"
  shows "length rays' = length rays
         \<and> (\<forall>i<length rays.
               rpos (rays' ! i) = rpos (rays ! i) \<and> rdir (rays' ! i) = rdir (rays ! i)
               \<and> tnear (rays' ! i) = tnear (rays ! i) \<and> tfar (rays' ! i) = tfar (rays ! i)
               \<and> valid (rays' ! i) = valid (rays ! i)
               \<and> HostRay.more (rays' ! i) = HostRay.more (rays ! i)
               \<and> (i < rayCount \<and> \<not> valid (rays ! i) \<longrightarrow> rays' ! i = (rays ! i)\<lparr>isisect := False\<rparr>)
               \<and> (isect (rays' ! i) \<noteq> isect (rays ! i) \<or> ns (rays' ! i) \<noteq> ns (rays ! i)
                    \<longrightarrow> valid (rays ! i) \<and> isisect (rays' ! i)))"
proof -
  note fr = intersect_loop_frame [OF assms [unfolded intersect_def]]
  have "rpos (rays' ! i) = rpos (rays ! i) \<and> rdir (rays' ! i) = rdir (rays ! i)
               \<and> tnear (rays' ! i) = tnear (rays ! i) \<and> tfar (rays' ! i) = tfar (rays ! i)
               \<and> valid (rays' ! i) = valid (rays ! i)
               \<and> HostRay.more (rays' ! i) = HostRay.more (rays ! i)
               \<and> (i < rayCount \<and> \<not> valid (rays ! i) \<longrightarrow> rays' ! i = (rays ! i)\<lparr>isisect := False\<rparr>)
               \<and> (isect (rays' ! i) \<noteq> isect (rays ! i) \<or> ns (rays' ! i) \<noteq> ns (rays ! i)
                    \<longrightarrow> valid (rays ! i) \<and> isisect (rays' ! i))"
    if i: "i < length rays" for i
  proof (cases "i < rayCount")
    case True
    with fr i have "intersect_ray n lb (rays ! i) = Some (Inr (rays' ! i))" by simp
    from intersect_ray_frame [OF this] True show ?thesis by auto
  next
    case False
    with fr i have "rays' ! i = rays ! i" by simp
    with False show ?thesis by simp
  qed
  with fr show ?thesis by blast
qed

text \<open>An invalid ray, a ray that hits face 0, and a ray that misses.\<close>

definition ray_invalid :: HostRay where
  "ray_invalid = \<lparr>rpos = Vec3 0 0 0, rdir = Vec3 1 1 (- 1), valid = False, tnear = 0, tfar = 10,
        isisect = True, isect = Vec3 7 7 7, ns = Vec3 8 8 8\<rparr>"

definition ray_hits :: HostRay where
  "ray_hits = \<lparr>rpos = Vec3 (- (1 / 2)) (- (1 / 2)) (3 / 2), rdir = Vec3 1 1 (- 1), valid = True,
        tnear = 0, tfar = 10, isisect = False, isect = Vec3 7 7 7, ns = Vec3 8 8 8\<rparr>"

definition ray_misses :: HostRay where
  "ray_misses = \<lparr>rpos = Vec3 9 9 9, rdir = Vec3 1 1 (- 1), valid = True, tnear = 0, tfar = 10,
        isisect = True, isect = Vec3 7 7 7, ns = Vec3 8 8 8\<rparr>"

lemma ray_invalid_run:
  "intersect_ray 2 two_bvh ray_invalid = Some (Inr (ray_invalid\<lparr>isisect := False\<rparr>))"
  by code_simp

lemma ray_hits_run:
  "intersect_ray 2 two_bvh ray_hits
     = Some (Inr (ray_hits\<lparr>isisect := True, isect := Vec3 (1 / 2) (1 / 2) (1 / 2), ns := Vec3 0 1 (- 1)\<rparr>))"
  by code_simp

lemma ray_misses_run:
  "intersect_ray 2 two_bvh ray_misses = Some (Inr (ray_misses\<lparr>isisect := False\<rparr>))"
  by code_simp

lemma host_rays_run:
  "intersect 2 two_bvh [ray_invalid, ray_hits, ray_misses] 3
     = Some (Inr [ray_invalid\<lparr>isisect := False\<rparr>,
                  ray_hits\<lparr>isisect := True, isect := Vec3 (1 / 2) (1 / 2) (1 / 2), ns := Vec3 0 1 (- 1)\<rparr>,
                  ray_misses\<lparr>isisect := False\<rparr>])"
  by (simp add: intersect_def numeral_3_eq_3 ray_invalid_run ray_hits_run ray_misses_run)

theorem intersect_frame_witness:
  "intersect 2 two_bvh [ray_invalid, ray_hits, ray_misses] 3
     = Some (Inr [ray_invalid\<lparr>isisect := False\<rparr>,
                  ray_hits\<lparr>isisect := True, isect := Vec3 (1 / 2) (1 / 2) (1 / 2), ns := Vec3 0 1 (- 1)\<rparr>,
                  ray_misses\<lparr>isisect := False\<rparr>])
   \<and> \<not> valid ray_invalid
   \<and> rpos (ray_hits\<lparr>isisect := True, isect := Vec3 (1 / 2) (1 / 2) (1 / 2), ns := Vec3 0 1 (- 1)\<rparr>)
       = rpos ray_hits
   \<and> isect (ray_hits\<lparr>isisect := True, isect := Vec3 (1 / 2) (1 / 2) (1 / 2), ns := Vec3 0 1 (- 1)\<rparr>)
       \<noteq> isect ray_hits
   \<and> isisect (ray_hits\<lparr>isisect := True, isect := Vec3 (1 / 2) (1 / 2) (1 / 2), ns := Vec3 0 1 (- 1)\<rparr>)"
proof -
  note th = intersect_frame [OF host_rays_run]
  have a: "\<not> valid ray_invalid" by (simp add: ray_invalid_def)
  have b: "isect (ray_hits\<lparr>isisect := True, isect := Vec3 (1 / 2) (1 / 2) (1 / 2), ns := Vec3 0 1 (- 1)\<rparr>)
       \<noteq> isect ray_hits"
    by (simp add: ray_hits_def Vec3_def)
  have l: "1 < length [ray_invalid, ray_hits, ray_misses]" by simp
  from th [THEN conjunct2, rule_format, OF l, THEN conjunct1]
  have c: "rpos (ray_hits\<lparr>isisect := True, isect := Vec3 (1 / 2) (1 / 2) (1 / 2), ns := Vec3 0 1 (- 1)\<rparr>)
       = rpos ray_hits"
    by simp
  have d: "isisect (ray_hits\<lparr>isisect := True, isect := Vec3 (1 / 2) (1 / 2) (1 / 2), ns := Vec3 0 1 (- 1)\<rparr>)"
    by simp
  from host_rays_run a b c d show ?thesis by (intro conjI)
qed

section \<open>Degenerate meshes\<close>

lemma set_thread_simps [simp]:
  "bNodes (set_thread t c st) = bNodes st"
  "other_bounds (set_thread t c st) = other_bounds st"
  "bRoot (set_thread t c st) = bRoot st"
  "fault (set_thread t c st) = fault st"
  "threads (set_thread t c st) = (threads st)[t := c]"
  by (simp_all add: set_thread_def)

lemma loop_step_length_bNodes:
  "length (bNodes (loop_step leaves N t c st)) = length (bNodes st)"
  by (simp add: loop_step_def Let_def split: sum.splits)

lemma step_length_bNodes: "length (bNodes (step leaves N t st)) = length (bNodes st)"
  by (simp add: step_def Let_def loop_step_length_bNodes split: pc.splits)

lemma run_length_bNodes: "length (bNodes (run leaves N sched st)) = length (bNodes st)"
  unfolding run_def by (induction sched arbitrary: st) (simp_all add: step_length_bNodes)

lemma length_resize_nodes: "length (resize_nodes nodes n) = n"
  by (simp add: resize_nodes_def)

lemma Build_length_Nodes:
  assumes "Build lb sorted_leaves sched = Some (Inr lb')"
  shows "length (Nodes lb') = unat ((of_nat (IndexCount lb div 3) :: u32) - 1)"
  using assms
  by (auto simp: Build_def Let_def run_length_bNodes length_resize_nodes
      split: sum.splits if_splits option.splits)

lemma TraverseIterative_no_nodes:
  "Nodes lb = [] \<Longrightarrow> TraverseIterative (Suc n) lb ray rec = Some (Inl OutOfBounds)"
  by (simp add: TraverseIterative_def)

text \<open>
  C6. For a mesh with exactly one triangle, \<open>Build\<close> resizes \<open>Nodes\<close> to \<open>N = T - 1 = 0\<close>
  entries and the only climb stores \<open>Root = 0\<close>; the first thing the traversal does is read
  \<open>Nodes[Root]\<close>, which is out of bounds, and the triangle is never tested.
\<close>

theorem single_triangle_out_of_bounds:
  assumes "IndexCount lb div 3 = 1" and "Build lb sorted_leaves sched = Some (Inr lb')"
  shows "Nodes lb' = [] \<and> TraverseIterative (Suc n) lb' ray rec = Some (Inl OutOfBounds)"
proof -
  from Build_length_Nodes [OF assms(2)] assms(1) have "Nodes lb' = []" by simp
  then show ?thesis by (simp add: TraverseIterative_no_nodes)
qed

lemma one_build: "Build one_lb [(0, 119304647)] [0] = Some (Inr (one_lb\<lparr>Root := 0\<rparr>))"
  by code_simp

theorem single_triangle_out_of_bounds_witness:
  "IndexCount one_lb div 3 = 1
   \<and> Build one_lb [(0, 119304647)] [0] = Some (Inr (one_lb\<lparr>Root := 0\<rparr>))
   \<and> Nodes (one_lb\<lparr>Root := 0\<rparr>) = []
   \<and> TraverseIterative (Suc 0) (one_lb\<lparr>Root := 0\<rparr>) hit_ray (rec_init 10) = Some (Inl OutOfBounds)"
proof -
  have a: "IndexCount one_lb div 3 = 1" by (simp add: one_lb_def LBVH_init_def)
  from single_triangle_out_of_bounds [OF a one_build, of 0 hit_ray "rec_init 10"] a one_build
  show ?thesis by simp
qed

text \<open>
  C4. \<open>preprocess\<close> has no test for null pointers or zero counts and always calls
  \<open>Build\<close>. With \<open>faceCount = 0\<close> (and no positions) \<open>T = 0\<close>, and \<open>N = T - 1\<close> wraps to
  \<open>2^32 - 1\<close>: \<open>Nodes\<close> is resized to that many default nodes, \<open>Root\<close> stays \<open>kInvalid\<close>,
  and the traversal of a valid ray reads \<open>Nodes[kInvalid]\<close>, one past the end. With a null
  \<open>vertices\<close> and a positive \<open>vertexCount\<close>, \<open>Build\<close> reads through the null pointer.
\<close>

lemma unat_minus_1_u32: "unat (- 1 :: u32) = 4294967295"
  by (simp add: unsigned_minus_1_eq_mask mask_eq_exp_minus_1)

lemma run_no_threads: "threads st = [] \<Longrightarrow> run leaves N sched st = st"
  unfolding run_def by (induction sched) (simp_all add: step_def)

definition empty_bvh :: "real list option \<Rightarrow> real list option \<Rightarrow> u32 list option \<Rightarrow> LBVH" where
  "empty_bvh vertices normals indices =
     \<lparr>Root = kInvalid, Positions = vertices, Normals = normals, Indices = indices,
      PositionCount = 0, NormalCount = 0, IndexCount = 0,
      Nodes = replicate 4294967295 (untranslate AABB_null Node_default)\<rparr>"

lemma mesh_box_null:
  assumes "Positions lb = None" and "0 < PositionCount lb"
  shows "mesh_box lb = Inl NullPointer"
proof -
  let ?F = "\<lambda>i acc. case acc of Inl e \<Rightarrow> Inl e
                  | Inr b \<Rightarrow> (case read_vec (Positions lb) i of Inl e \<Rightarrow> Inl e | Inr p \<Rightarrow> Inr (MergeP b p))"
  have rv: "read_vec (Positions lb) i = Inl NullPointer" for i
    by (simp add: read_vec_def assms(1))
  have stay: "fold ?F xs (Inl NullPointer) = Inl NullPointer" for xs :: "nat list"
    by (induction xs) simp_all
  from assms(2) have "[0..<PositionCount lb] = 0 # [Suc 0..<PositionCount lb]"
    by (simp add: upt_conv_Cons)
  then have "fold ?F [0..<PositionCount lb] (Inr AABB_null) = Inl NullPointer"
    by (simp add: rv stay)
  then show ?thesis
    by (simp add: mesh_box_def)
qed

theorem preprocess_no_faces:
  "preprocess vertices 0 normals 0 indices 0 LBVH_init [] sched
     = Some (Inr (empty_bvh vertices normals indices))
   \<and> length (Nodes (empty_bvh vertices normals indices)) = 4294967295
   \<and> unat (Root (empty_bvh vertices normals indices)) = 4294967295
   \<and> intersect (Suc n) (empty_bvh vertices normals indices) [r\<lparr>valid := True\<rparr>] 1
       = Some (Inl OutOfBounds)
   \<and> preprocess None (Suc k) normals normalCount indices faceCount LBVH_init sorted_leaves sched
       = Some (Inl NullPointer)"
proof -
  have a: "preprocess vertices 0 normals 0 indices 0 LBVH_init [] sched
     = Some (Inr (empty_bvh vertices normals indices))"
    by (simp add: preprocess_def Build_def mesh_box_def leaves_fill_def is_sort_of_def
        threads_init_def run_no_threads all_done_def resize_nodes_def LBVH_init_def empty_bvh_def
        unat_minus_1_u32)
  have b: "length (Nodes (empty_bvh vertices normals indices)) = 4294967295"
    by (simp add: empty_bvh_def)
  have c: "unat (Root (empty_bvh vertices normals indices)) = 4294967295"
    by (simp add: empty_bvh_def kInvalid_def)
  have d: "TraverseIterative (Suc n) (empty_bvh vertices normals indices) ray rec = Some (Inl OutOfBounds)"
    for ray rec
    by (simp add: TraverseIterative_def b c)
  have e: "intersect (Suc n) (empty_bvh vertices normals indices) [r\<lparr>valid := True\<rparr>] 1
       = Some (Inl OutOfBounds)"
    by (simp add: intersect_def intersect_ray_def d)
  have f: "preprocess None (Suc k) normals normalCount indices faceCount LBVH_init sorted_leaves sched
       = Some (Inl NullPointer)"
    by (simp add: preprocess_def Build_def mesh_box_null)
  from a b c e f show ?thesis by (intro conjI)
qed


section \<open>The build and the traversal on two triangles\<close>

text \<open>
  C2. Both climbs of a node run \<open>Nodes[parent].Box.Merge(aabb)\<close> after their \<open>exchange\<close>,
  with nothing ordering the two merges. When both read the box of node 0 before either
  writes it back, the later write wins: node 0 ends with the box of face 1 alone, although
  its right child is the leaf of face 0, whose corner \<open>(4, 0, 0)\<close> lies outside. A ray that
  hits face 0 outside that box is then pruned at the root.
\<close>

theorem raced_build_loses_box:
  "Build two_lb two_sorted sched_race = Some (Inr two_bvh_raced)
   \<and> Root two_bvh_raced = 0
   \<and> R (Nodes two_bvh_raced ! 0) = 1
   \<and> tri_pos two_bvh_raced 0 = Inr (Vec3 0 0 0, Vec3 4 0 0, Vec3 0 4 4)
   \<and> maxi (Box (Nodes two_bvh_raced ! 0)) = Vec3 2 2 2
   \<and> TraverseIterative 2 two_bvh_raced far_ray (rec_init 10) = Some (Inr (rec_init 10))
   \<and> brute_force two_bvh_raced far_ray (rec_init 10) 2
       = Inr \<lparr>hit = True, hdist = 1, hu = 3 / 4, hv = 1 / 8, face_id = 0\<rparr>"
proof -
  have a: "Root two_bvh_raced = 0" "R (Nodes two_bvh_raced ! 0) = 1"
    "maxi (Box (Nodes two_bvh_raced ! 0)) = Vec3 2 2 2"
    by (simp_all add: two_bvh_raced_def two_nodes_def)
  have b: "tri_pos two_bvh_raced 0 = Inr (Vec3 0 0 0, Vec3 4 0 0, Vec3 0 4 4)"
    by code_simp
  have c: "TraverseIterative 2 two_bvh_raced far_ray (rec_init 10) = Some (Inr (rec_init 10))"
    by code_simp
  have d: "brute_force two_bvh_raced far_ray (rec_init 10) 2
       = Inr \<lparr>hit = True, hdist = 1, hu = 3 / 4, hv = 1 / 8, face_id = 0\<rparr>"
    by code_simp
  from two_build_race a b c d show ?thesis by (intro conjI)
qed

text \<open>
  C1, as stated, with the climbs run one after the other: the traversal tests the leaves in
  Morton order (face 1, then face 0), brute force in index order (face 0, then face 1);
  both faces are hit at \<open>t = 1\<close>, the later test overwrites the earlier, and the two records
  differ in \<open>u\<close>, \<open>v\<close> and \<open>face_id\<close>.
\<close>

theorem tie_order_counterexample:
  "Build two_lb two_sorted sched_seq = Some (Inr two_bvh)
   \<and> TraverseIterative 2 two_bvh hit_ray (rec_init 10)
       = Some (Inr \<lparr>hit = True, hdist = 1, hu = 1 / 8, hv = 1 / 8, face_id = 0\<rparr>)
   \<and> brute_force two_bvh hit_ray (rec_init 10) 2
       = Inr \<lparr>hit = True, hdist = 1, hu = 1 / 4, hv = 1 / 4, face_id = 1\<rparr>"
proof -
  have c: "TraverseIterative 2 two_bvh hit_ray (rec_init 10)
       = Some (Inr \<lparr>hit = True, hdist = 1, hu = 1 / 8, hv = 1 / 8, face_id = 0\<rparr>)"
    by code_simp
  have d: "brute_force two_bvh hit_ray (rec_init 10) 2
       = Inr \<lparr>hit = True, hdist = 1, hu = 1 / 4, hv = 1 / 4, face_id = 1\<rparr>"
    by code_simp
  from two_build_seq c d show ?thesis by (intro conjI)
qed


section \<open>The stack of the traversal\<close>

text \<open>
  \<open>TraverseIterative\<close> keeps the nodes still to visit in an array of 64 entries. This
  section shows that the array suffices for every tree \<open>Build\<close> produces, whatever the
  interleaving of the climbs: the nodes of a finished build form a binary tree over the
  sorted leaves, the tree is the Cartesian tree of the keys \<open>(delta, index)\<close>, and along
  any path of it the highest set bit of \<open>delta\<close> falls at every node whose children both
  need stack space.
\<close>

subsection \<open>Trees behind the node array\<close>

text \<open>
  An \<open>ltree\<close> names the part of the node array below a child index: a leaf holds the
  face, an inner node its index in \<open>Nodes\<close>. \<open>enc\<close> is the child index the build stores
  (\<open>(face << 1) + 1\<close> or \<open>index << 1\<close>), \<open>wf_tree\<close> says that the array holds the tree,
  \<open>sd\<close> is the room the traversal needs on top of the entry of the tree itself, and
  \<open>trav\<close> is the traversal written by recursion on the tree.
\<close>

datatype ltree = Lf u32 | Nd nat ltree ltree


fun is_Lf :: "ltree \<Rightarrow> bool" where
  "is_Lf (Lf x) = True"
| "is_Lf (Nd m l r) = False"









fun root_idx :: "ltree \<Rightarrow> nat" where
  "root_idx (Lf x) = 0"
| "root_idx (Nd m l r) = m"



lemma unat_of_nat_u32: "n < 2 ^ 32 \<Longrightarrow> unat (of_nat n :: u32) = n"
  by (simp add: unat_of_nat)

lemma unat_double_u32:
  fixes x :: u32
  assumes "x < 2 ^ 31"
  shows "unat (push_bit 1 x) = 2 * unat x"
proof -
  have "unat x < 2 ^ 31" using assms by (simp add: word_less_nat_alt)
  then show ?thesis
    by (simp add: push_bit_eq_mult unat_word_ariths)
qed











subsection \<open>Keys and intervals\<close>

text \<open>
  \<open>dl lv j\<close> is \<open>Delta(leaves, j)\<close>, the XOR of the codes of the leaves \<open>j\<close> and \<open>j + 1\<close>.
  The climb compares these values and, at a tie, prefers the boundary to the left, which
  is the order of the pairs \<open>(delta, index)\<close>: \<open>key\<close>. A climb owns an interval \<open>[l, r]\<close> of
  leaves; \<open>rpar\<close> is the test of the source for "the parent is the boundary to the right",
  \<open>par\<close> the boundary chosen. An interval is \<open>closed\<close> when every boundary inside has a
  smaller key than the two outside, and \<open>is_tree\<close> holds of the tree whose every node
  carries the largest key of its interval.
\<close>

definition dl :: "leaf list \<Rightarrow> nat \<Rightarrow> u32" where
  "dl lv j = snd (lv ! Suc j) XOR snd (lv ! j)"

definition key :: "leaf list \<Rightarrow> nat \<Rightarrow> nat" where
  "key lv j = unat (dl lv j) * 4294967296 + j"




definition rpar :: "leaf list \<Rightarrow> nat \<Rightarrow> nat \<Rightarrow> nat \<Rightarrow> bool" where
  "rpar lv n l r \<longleftrightarrow> l = 0 \<or> (r \<noteq> n \<and> dl lv r < dl lv (l - 1))"

definition par :: "leaf list \<Rightarrow> nat \<Rightarrow> nat \<Rightarrow> nat \<Rightarrow> nat" where
  "par lv n l r = (if rpar lv n l r then r else l - 1)"


fun is_tree :: "leaf list \<Rightarrow> nat \<Rightarrow> nat \<Rightarrow> ltree \<Rightarrow> bool" where
  "is_tree lv l r (Lf x) \<longleftrightarrow> l = r \<and> x = fst (lv ! l)"
| "is_tree lv l r (Nd m lt rt) \<longleftrightarrow>
     l \<le> m \<and> m < r \<and> is_tree lv l m lt \<and> is_tree lv (Suc m) r rt
     \<and> (\<forall>j. l \<le> j \<and> j < r \<and> j \<noteq> m \<longrightarrow> key lv j < key lv m)"



lemma is_tree_le: "is_tree lv l r t \<Longrightarrow> l \<le> r"
  by (cases t) auto









text \<open>
  The invariant of the build. Ghost state: \<open>iv x\<close> is the interval that leaf \<open>x\<close> lies in
  at present, \<open>tre a\<close> the tree built over the interval that starts at \<open>a\<close>. A climb is
  \<open>active\<close> while it will go on to a further iteration. An interval without an active
  climb is parked: its climb has left the lower end (or the upper end) of the interval in
  \<open>other_bounds\<close> at the parent and the child index of its tree in the parent node, and
  has stopped or is about to; the root interval has stored \<open>Root\<close>. Every deposit in
  \<open>other_bounds\<close> is either used up (its boundary lies inside an interval) or belongs to
  a parked interval.
\<close>

definition active :: "climb \<Rightarrow> bool" where
  "active c \<longleftrightarrow> pc c = Loop \<or> (pc c \<noteq> Done \<and> previous c \<noteq> kInvalid)"

definition cur_ok :: "climb \<Rightarrow> ltree \<Rightarrow> bool" where
  "cur_ok c t \<longleftrightarrow>
     (is_leaf c \<longleftrightarrow> is_Lf t) \<and> unat (current c) = (if is_Lf t then unat (cL c) else root_idx t)"



definition thread_ok :: "nat \<Rightarrow> (nat \<times> nat) \<Rightarrow> ltree \<Rightarrow> climb \<Rightarrow> bool" where
  "thread_ok n ab t c \<longleftrightarrow>
     (active c \<longrightarrow> ab = (unat (cL c), unat (cR c))
        \<and> (if pc c = Loop then cur_ok c t else \<not> is_Lf t \<and> root_idx t = unat (parent c)))
     \<and> (pc c \<noteq> Loop \<and> pc c \<noteq> Done \<longrightarrow> unat (parent c) < n)"











subsection \<open>The invariant is kept by every step\<close>
























text \<open>
  A climb that finds a deposit takes the sibling interval over: the two intervals become
  one, with the parent as the root of the joined tree.
\<close>

lemma thread_ok_inactive:
  "\<not> active c \<Longrightarrow> thread_ok n ab t c = thread_ok n ab' t' c"
  by (simp add: thread_ok_def)











subsection \<open>The first and the last state\<close>









subsection \<open>Depth from sorted codes\<close>














subsection \<open>The bound\<close>














end
